theory Spec2Isabelle
  imports Complex_Main
begin

text \<open>
  A shallow embedding of \<^verbatim>\<open>models/vanilla_vae.py\<close>: the class VanillaVAE with its lazy
  \<open>build\<close>, the shapes of the tensors that pass through its layers, and the arithmetic
  of \<open>reparameterize\<close> and \<open>loss_function\<close>.  The tensor library is modelled as far as
  the class uses it: shapes and exceptions of the layers as the library documents them,
  elementwise arithmetic with broadcasting, and the reductions \<^verbatim>\<open>sum\<close> and \<^verbatim>\<open>mean\<close>.
\<close>

section \<open>Exceptions and tensors\<close>

text \<open>
  The exceptions that \<^verbatim>\<open>models/vanilla_vae.py\<close> and the tensor library it calls can
  raise.  \<open>AttributeError\<close> carries its message, because the model raises it with the
  fixed text \<^verbatim>\<open>build model first using model.build\<close>, and \<open>KeyError\<close> its key.
\<close>

datatype error =
    AttributeError string
  | RuntimeError
  | ValueError
  | IndexError
  | KeyError string
  | TypeError

text \<open>
  A tensor is its shape, its entries in row-major order and the autograd flag.  Entries
  are real numbers: rounding, overflow and NaN of the machine floats are not part of
  this model.
\<close>

record tensor =
  shape :: "nat list"
  vals :: "real list"
  requires_grad :: bool

definition numel :: "nat list \<Rightarrow> nat" where
  "numel s = prod_list s"

definition detach :: "tensor \<Rightarrow> tensor" where
  "detach t = t\<lparr>requires_grad := False\<rparr>"

subsection \<open>Broadcasting and elementwise arithmetic\<close>

text \<open>\<open>chunks k n xs\<close> cuts \<open>xs\<close> into \<open>k\<close> consecutive pieces of length \<open>n\<close>.\<close>

definition chunks :: "nat \<Rightarrow> nat \<Rightarrow> 'a list \<Rightarrow> 'a list list" where
  "chunks k n xs = map (\<lambda>i. take n (drop (i * n) xs)) [0..<k]"

text \<open>Shapes are aligned at their last dimension; a dimension of size 1 stretches.\<close>

fun broadcast_dims :: "nat list \<Rightarrow> nat list \<Rightarrow> nat list option" where
  "broadcast_dims [] ys = Some ys"
| "broadcast_dims (x # xs) [] = Some (x # xs)"
| "broadcast_dims (x # xs) (y # ys) =
     (if x = y \<or> y = 1 then map_option ((#) x) (broadcast_dims xs ys)
      else if x = 1 then map_option ((#) y) (broadcast_dims xs ys)
      else None)"

definition broadcast_shapes :: "nat list \<Rightarrow> nat list \<Rightarrow> nat list option" where
  "broadcast_shapes a b = map_option rev (broadcast_dims (rev a) (rev b))"

fun expand_vals :: "nat list \<Rightarrow> nat list \<Rightarrow> real list \<Rightarrow> real list" where
  "expand_vals (t # ts) (s # ss) v =
     (if s = t then concat (map (expand_vals ts ss) (chunks t (prod_list ss) v))
      else concat (replicate t (expand_vals ts ss v)))"
| "expand_vals ts ss v = v"

definition expand_to :: "nat list \<Rightarrow> tensor \<Rightarrow> real list" where
  "expand_to t x =
     expand_vals t (replicate (length t - length (shape x)) 1 @ shape x) (vals x)"

definition tensor_binop ::
  "(real \<Rightarrow> real \<Rightarrow> real) \<Rightarrow> tensor \<Rightarrow> tensor \<Rightarrow> error + tensor" where
  "tensor_binop f a b =
     (case broadcast_shapes (shape a) (shape b) of
        None \<Rightarrow> Inl RuntimeError
      | Some s \<Rightarrow>
          Inr \<lparr>shape = s,
               vals = map2 f (expand_to s a) (expand_to s b),
               requires_grad = (requires_grad a \<or> requires_grad b)\<rparr>)"

definition tensor_map :: "(real \<Rightarrow> real) \<Rightarrow> tensor \<Rightarrow> tensor" where
  "tensor_map f a = a\<lparr>vals := map f (vals a)\<rparr>"

definition tensor_add :: "tensor \<Rightarrow> tensor \<Rightarrow> error + tensor" where
  "tensor_add = tensor_binop (+)"

definition tensor_sub :: "tensor \<Rightarrow> tensor \<Rightarrow> error + tensor" where
  "tensor_sub = tensor_binop (-)"

definition tensor_mul :: "tensor \<Rightarrow> tensor \<Rightarrow> error + tensor" where
  "tensor_mul = tensor_binop (*)"

definition tensor_neg :: "tensor \<Rightarrow> tensor" where
  "tensor_neg = tensor_map uminus"

definition tensor_exp :: "tensor \<Rightarrow> tensor" where
  "tensor_exp = tensor_map exp"

text \<open>A Python number combined with a tensor acts on every entry.\<close>

definition scalar_add :: "real \<Rightarrow> tensor \<Rightarrow> tensor" where
  "scalar_add c = tensor_map (\<lambda>v. c + v)"

definition scalar_mul :: "real \<Rightarrow> tensor \<Rightarrow> tensor" where
  "scalar_mul c = tensor_map (\<lambda>v. c * v)"

definition tensor_pow :: "tensor \<Rightarrow> nat \<Rightarrow> tensor" where
  "tensor_pow a n = tensor_map (\<lambda>v. v ^ n) a"

subsection \<open>Reductions\<close>

text \<open>\<open>vsum r cs\<close> adds the lists \<open>cs\<close>, each of length \<open>r\<close>, entry by entry.\<close>

definition vsum :: "nat \<Rightarrow> real list list \<Rightarrow> real list" where
  "vsum r cs = map (\<lambda>k. sum_list (map (\<lambda>c. c ! k) cs)) [0..<r]"

text \<open>
  \<open>sum_vals d s v\<close>: the entries of \<^verbatim>\<open>torch.sum(t, dim = d)\<close> for a tensor of shape
  \<open>s\<close> with entries \<open>v\<close>, where \<open>d\<close> is a dimension of \<open>s\<close>; the library raises
  IndexError for any other \<open>d\<close>.
\<close>

fun sum_vals :: "nat \<Rightarrow> nat list \<Rightarrow> real list \<Rightarrow> real list" where
  "sum_vals d [] v = v"
| "sum_vals 0 (n # rest) v = vsum (prod_list rest) (chunks n (prod_list rest) v)"
| "sum_vals (Suc d) (n # rest) v =
     concat (map (sum_vals d rest) (chunks n (prod_list rest) v))"

definition torch_sum :: "tensor \<Rightarrow> nat \<Rightarrow> error + tensor" where
  "torch_sum t d =
     (if length (shape t) \<le> d then Inl IndexError
      else Inr (t\<lparr>shape := take d (shape t) @ drop (Suc d) (shape t),
                 vals := sum_vals d (shape t) (vals t)\<rparr>))"

text \<open>
  \<^verbatim>\<open>torch.mean(t, dim = d)\<close> divides the sum by the size of dimension \<open>d\<close>.  Over an
  empty dimension the library returns NaN, which the reals do not have: the theorems
  below that speak of a mean assume a non-empty dimension.
\<close>

definition torch_mean :: "tensor \<Rightarrow> nat \<Rightarrow> error + tensor" where
  "torch_mean t d =
     (case torch_sum t d of
        Inl e \<Rightarrow> Inl e
      | Inr s \<Rightarrow> Inr (tensor_map (\<lambda>v. v / real (shape t ! d)) s))"

text \<open>\<^verbatim>\<open>F.mse_loss(a, b)\<close> with the default reduction: the mean of the squared differences.\<close>

definition mse_loss :: "tensor \<Rightarrow> tensor \<Rightarrow> error + tensor" where
  "mse_loss a b =
     (case tensor_sub a b of
        Inl e \<Rightarrow> Inl e
      | Inr d \<Rightarrow>
          Inr \<lparr>shape = [],
               vals = [sum_list (map (\<lambda>v. v ^ 2) (vals d)) / real (numel (shape d))],
               requires_grad = requires_grad d\<rparr>)"

subsection \<open>Sequencing calls that may raise\<close>

text \<open>
  A call either raises (\<open>Inl\<close>) or returns (\<open>Inr\<close>).  \<open>bind_err r k\<close> continues with
  \<open>k\<close> on the value \<open>r\<close> returned and passes an exception on; \<open>stage s r k\<close> does the
  same inside a method that has changed its object to \<open>s\<close> so far, the exception
  leaving the object as it is then.
\<close>

definition bind_err :: "error + 'a \<Rightarrow> ('a \<Rightarrow> error + 'b) \<Rightarrow> error + 'b" where
  "bind_err r k = (case r of Inl e \<Rightarrow> Inl e | Inr a \<Rightarrow> k a)"

definition stage :: "'s \<Rightarrow> error + 'a \<Rightarrow> ('a \<Rightarrow> 's \<times> (error + 'b)) \<Rightarrow> 's \<times> (error + 'b)" where
  "stage s r k = (case r of Inl e \<Rightarrow> (s, Inl e) | Inr a \<Rightarrow> k a)"

section \<open>Layers of the network library\<close>

text \<open>
  The layers the model is assembled from, with the sizes their constructors fix:
  \<open>Conv2d in out kernel stride padding\<close>,
  \<open>ConvTranspose2d in out kernel stride padding output_padding\<close>,
  \<open>BatchNorm2d features training\<close>, \<open>LeakyReLU\<close> and \<open>Linear in out\<close>.
  Every module of the library has its own flag \<^verbatim>\<open>training\<close>, which its constructor sets
  to True and which only \<^verbatim>\<open>train\<close> and \<^verbatim>\<open>eval\<close> change.  Of the layers used here only
  batch normalisation reads it, so only there it is kept.
\<close>

datatype layer =
    Conv2d nat nat nat nat nat
  | ConvTranspose2d nat nat nat nat nat nat
  | BatchNorm2d nat bool
  | LeakyReLU
  | Linear nat nat

text \<open>
  The constructors receive Python integers and allocate their weights at once, which
  fails with RuntimeError for a negative size.  A size of zero is accepted by the
  constructors; the convolutions refuse it when they are applied.
\<close>

definition nn_Conv2d :: "int \<Rightarrow> int \<Rightarrow> int \<Rightarrow> nat \<Rightarrow> nat \<Rightarrow> error + layer" where
  "nn_Conv2d cin cout k s p =
     (if cin < 0 \<or> cout < 0 \<or> k < 0 then Inl RuntimeError
      else Inr (Conv2d (nat cin) (nat cout) (nat k) s p))"

definition nn_ConvTranspose2d ::
  "int \<Rightarrow> int \<Rightarrow> int \<Rightarrow> nat \<Rightarrow> nat \<Rightarrow> nat \<Rightarrow> error + layer" where
  "nn_ConvTranspose2d cin cout k s p op =
     (if cin < 0 \<or> cout < 0 \<or> k < 0 then Inl RuntimeError
      else Inr (ConvTranspose2d (nat cin) (nat cout) (nat k) s p op))"

definition nn_BatchNorm2d :: "int \<Rightarrow> error + layer" where
  "nn_BatchNorm2d n = (if n < 0 then Inl RuntimeError else Inr (BatchNorm2d (nat n) True))"

definition nn_Linear :: "int \<Rightarrow> int \<Rightarrow> error + layer" where
  "nn_Linear fin fout =
     (if fin < 0 \<or> fout < 0 then Inl RuntimeError else Inr (Linear (nat fin) (nat fout)))"

subsection \<open>Output shapes\<close>

definition conv_out :: "nat \<Rightarrow> nat \<Rightarrow> nat \<Rightarrow> nat \<Rightarrow> nat" where
  "conv_out i k s p = (i + 2 * p - k) div s + 1"

definition convT_out :: "nat \<Rightarrow> nat \<Rightarrow> nat \<Rightarrow> nat \<Rightarrow> nat \<Rightarrow> int" where
  "convT_out i k s p op = (int i - 1) * int s - 2 * int p + (int k - 1) + int op + 1"

text \<open>The size a convolution with kernel 3, stride 2 and padding 1 leaves.\<close>

definition halve :: "nat \<Rightarrow> nat" where
  "halve x = conv_out x 3 2 1"

text \<open>
  A convolution takes a batch \<open>[N, C, H, W]\<close> or a single image \<open>[C, H, W]\<close>; the channel
  count must be the layer's, the padded image at least as large as the kernel, and the
  layer must have input and output channels at all.
\<close>

fun conv2d_shape :: "nat \<Rightarrow> nat \<Rightarrow> nat \<Rightarrow> nat \<Rightarrow> nat \<Rightarrow> nat list \<Rightarrow> error + nat list" where
  "conv2d_shape cin cout k s p [n, c, h, w] =
     (if c \<noteq> cin \<or> cin = 0 \<or> cout = 0 \<or> k = 0 \<or> s = 0 \<or> h + 2 * p < k \<or> w + 2 * p < k
      then Inl RuntimeError
      else Inr [n, cout, conv_out h k s p, conv_out w k s p])"
| "conv2d_shape cin cout k s p [c, h, w] =
     (if c \<noteq> cin \<or> cin = 0 \<or> cout = 0 \<or> k = 0 \<or> s = 0 \<or> h + 2 * p < k \<or> w + 2 * p < k
      then Inl RuntimeError
      else Inr [cout, conv_out h k s p, conv_out w k s p])"
| "conv2d_shape cin cout k s p sh = Inl RuntimeError"

fun convT2d_shape ::
  "nat \<Rightarrow> nat \<Rightarrow> nat \<Rightarrow> nat \<Rightarrow> nat \<Rightarrow> nat \<Rightarrow> nat list \<Rightarrow> error + nat list" where
  "convT2d_shape cin cout k s p op [n, c, h, w] =
     (if c \<noteq> cin \<or> cin = 0 \<or> cout = 0 \<or> k = 0 \<or> s = 0 \<or> s \<le> op
         \<or> convT_out h k s p op \<le> 0 \<or> convT_out w k s p op \<le> 0
      then Inl RuntimeError
      else Inr [n, cout, nat (convT_out h k s p op), nat (convT_out w k s p op)])"
| "convT2d_shape cin cout k s p op [c, h, w] =
     (if c \<noteq> cin \<or> cin = 0 \<or> cout = 0 \<or> k = 0 \<or> s = 0 \<or> s \<le> op
         \<or> convT_out h k s p op \<le> 0 \<or> convT_out w k s p op \<le> 0
      then Inl RuntimeError
      else Inr [cout, nat (convT_out h k s p op), nat (convT_out w k s p op)])"
| "convT2d_shape cin cout k s p op sh = Inl RuntimeError"

text \<open>
  Batch normalisation wants four dimensions (ValueError otherwise) and, while the layer
  is in training mode, more than one value per channel: it raises ValueError when
  \<open>N * H * W = 1\<close>.
\<close>

fun batchnorm2d_shape :: "bool \<Rightarrow> nat \<Rightarrow> nat list \<Rightarrow> error + nat list" where
  "batchnorm2d_shape tr f [n, c, h, w] =
     (if tr \<and> n * h * w = 1 then Inl ValueError
      else if c \<noteq> f then Inl RuntimeError
      else Inr [n, c, h, w])"
| "batchnorm2d_shape tr f sh = Inl ValueError"

definition linear_shape :: "nat \<Rightarrow> nat \<Rightarrow> nat list \<Rightarrow> error + nat list" where
  "linear_shape fin fout sh =
     (if sh = [] \<or> last sh \<noteq> fin then Inl RuntimeError else Inr (butlast sh @ [fout]))"

fun layer_shape :: "layer \<Rightarrow> nat list \<Rightarrow> error + nat list" where
  "layer_shape (Conv2d cin cout k s p) sh = conv2d_shape cin cout k s p sh"
| "layer_shape (ConvTranspose2d cin cout k s p op) sh = convT2d_shape cin cout k s p op sh"
| "layer_shape (BatchNorm2d f tr) sh = batchnorm2d_shape tr f sh"
| "layer_shape LeakyReLU sh = Inr sh"
| "layer_shape (Linear fin fout) sh = linear_shape fin fout sh"

text \<open>\<^verbatim>\<open>train(mode)\<close> on a layer.\<close>

fun set_training :: "bool \<Rightarrow> layer \<Rightarrow> layer" where
  "set_training mode (BatchNorm2d f tr) = BatchNorm2d f mode"
| "set_training mode l = l"

subsection \<open>Applying layers\<close>

text \<open>
  The submodules of a VanillaVAE: \<open>Encoder i j\<close> is layer \<open>j\<close> of block \<open>i\<close> of
  \<^verbatim>\<open>self.encoder\<close>, and so on.
\<close>

datatype modpath =
    Encoder nat nat
  | Fc_mu
  | Fc_var
  | Decoder_input
  | Decoder nat nat
  | Final_layer nat
  | Output_layer

text \<open>
  The numbers a layer computes depend on its weights, which the constructors draw at
  random, and for batch normalisation on its mode.  They are a parameter of the model:
  \<open>nv p l x i\<close> is entry \<open>i\<close> of what the submodule at \<open>p\<close>, being the layer \<open>l\<close>, returns on
  the input \<open>x\<close>.  The running statistics that batch normalisation updates during a pass
  in training mode belong to these numerics.  Only LeakyReLU, which has no weights, is
  computed here (negative slope 0.01).  The weights of a layer require gradients, so its
  output does; gradient recording is taken to be switched on.  Tensors and modules carry
  no device here: where a module and its input lie on different devices the library
  raises RuntimeError, and what follows is about inputs that lie where the module does.
\<close>

type_synonym numerics = "modpath \<Rightarrow> layer \<Rightarrow> tensor \<Rightarrow> nat \<Rightarrow> real"

definition layer_forward ::
  "numerics \<Rightarrow> modpath \<Rightarrow> layer \<Rightarrow> tensor \<Rightarrow> error + tensor" where
  "layer_forward nv p l x =
     (case layer_shape l (shape x) of
        Inl e \<Rightarrow> Inl e
      | Inr s \<Rightarrow>
          Inr (if l = LeakyReLU
               then tensor_map (\<lambda>v. if 0 \<le> v then v else 0.01 * v) x
               else \<lparr>shape = s, vals = map (nv p l x) [0..<numel s], requires_grad = True\<rparr>))"

text \<open>\<^verbatim>\<open>nn.Sequential\<close>: the modules in order, the first exception ending the pass.\<close>

fun Sequential_forward ::
  "(nat \<Rightarrow> 'm \<Rightarrow> tensor \<Rightarrow> error + tensor) \<Rightarrow> nat \<Rightarrow> 'm list \<Rightarrow> tensor \<Rightarrow> error + tensor" where
  "Sequential_forward f i [] x = Inr x"
| "Sequential_forward f i (l # ls) x =
     (case f i l x of Inl e \<Rightarrow> Inl e | Inr y \<Rightarrow> Sequential_forward f (Suc i) ls y)"

definition block_forward ::
  "numerics \<Rightarrow> (nat \<Rightarrow> modpath) \<Rightarrow> layer list \<Rightarrow> tensor \<Rightarrow> error + tensor" where
  "block_forward nv p ls x = Sequential_forward (\<lambda>j. layer_forward nv (p j)) 0 ls x"

definition blocks_forward ::
  "numerics \<Rightarrow> (nat \<Rightarrow> nat \<Rightarrow> modpath) \<Rightarrow> layer list list \<Rightarrow> tensor \<Rightarrow> error + tensor" where
  "blocks_forward nv p bs x = Sequential_forward (\<lambda>i. block_forward nv (p i)) 0 bs x"

text \<open>The same passes on shapes alone.\<close>

fun Sequential_shape ::
  "('m \<Rightarrow> nat list \<Rightarrow> error + nat list) \<Rightarrow> 'm list \<Rightarrow> nat list \<Rightarrow> error + nat list" where
  "Sequential_shape g [] s = Inr s"
| "Sequential_shape g (l # ls) s =
     (case g l s of Inl e \<Rightarrow> Inl e | Inr s' \<Rightarrow> Sequential_shape g ls s')"

definition block_shape :: "layer list \<Rightarrow> nat list \<Rightarrow> error + nat list" where
  "block_shape = Sequential_shape layer_shape"

definition blocks_shape :: "layer list list \<Rightarrow> nat list \<Rightarrow> error + nat list" where
  "blocks_shape = Sequential_shape block_shape"

subsection \<open>Devices\<close>

text \<open>
  A device is named by a string such as \<^verbatim>\<open>'cpu'\<close> or by the index of an accelerator.
  What moving a tensor or a module to a device does depends on the machine: \<open>mc dev\<close> is
  \<open>None\<close> where the move succeeds, and the exception it raises otherwise (a string that
  names no device, an accelerator that is not there).
\<close>

datatype device = Device_name string | Device_index int

type_synonym machine = "device \<Rightarrow> error option"

definition tensor_to :: "machine \<Rightarrow> tensor \<Rightarrow> device \<Rightarrow> error + tensor" where
  "tensor_to mc t dev = (case mc dev of None \<Rightarrow> Inr t | Some e \<Rightarrow> Inl e)"

definition module_to :: "machine \<Rightarrow> device \<Rightarrow> error + unit" where
  "module_to mc dev = (case mc dev of None \<Rightarrow> Inr () | Some e \<Rightarrow> Inl e)"

subsection \<open>Reshaping\<close>

text \<open>
  \<^verbatim>\<open>torch.flatten(t, start_dim=1)\<close> keeps the first dimension and merges the others;
  a tensor with fewer than two dimensions has no dimension 1 (IndexError).
\<close>

definition torch_flatten :: "tensor \<Rightarrow> error + tensor" where
  "torch_flatten t =
     (case shape t of
        n # d # ds \<Rightarrow> Inr (t\<lparr>shape := [n, prod_list (d # ds)]\<rparr>)
      | _ \<Rightarrow> Inl IndexError)"

text \<open>
  \<^verbatim>\<open>t.view(-1, *s)\<close> infers the first dimension from the number of entries, which must
  be a multiple of the size of \<open>s\<close>; with a size of 0 the dimension cannot be inferred.
\<close>

definition view_rows :: "tensor \<Rightarrow> nat list \<Rightarrow> error + tensor" where
  "view_rows t s =
     (if prod_list s = 0 \<or> numel (shape t) mod prod_list s \<noteq> 0 then Inl RuntimeError
      else Inr (t\<lparr>shape := (numel (shape t) div prod_list s) # s\<rparr>))"

section \<open>The model object\<close>

text \<open>
  The attributes of a VanillaVAE.  \<open>__init__\<close> sets the first four and the inherited flag
  \<open>training\<close> of the object itself; the others exist only once \<open>build\<close> has assigned them,
  so they are optional here and reading a missing one raises AttributeError.  The layers
  keep their own mode, which no method of the class reads from the object.
\<close>

record VanillaVAE =
  latent_dim :: int
  hidden_dims :: "int list"
  in_channels :: int
  built :: bool
  training :: bool
  encoder :: "layer list list option"
  encoder_result_shape :: "nat list option"
  fc_mu :: "layer option"
  fc_var :: "layer option"
  decoder_input :: "layer option"
  decoder :: "layer list list option"
  final_layer :: "layer list option"
  output_layer :: "layer option"

definition not_built :: error where
  "not_built = AttributeError ''build model first using model.build''"

definition getattr :: "'a option \<Rightarrow> string \<Rightarrow> error + 'a" where
  "getattr a name = (case a of None \<Rightarrow> Inl (AttributeError name) | Some v \<Rightarrow> Inr v)"

definition init :: "int \<Rightarrow> int \<Rightarrow> int list option \<Rightarrow> VanillaVAE" where
  "init in_ch latent hidden =
     \<lparr>latent_dim = latent,
      hidden_dims = (case hidden of None \<Rightarrow> [32, 64, 128, 256, 512] | Some h \<Rightarrow> h),
      in_channels = in_ch,
      built = False,
      training = True,
      encoder = None,
      encoder_result_shape = None,
      fc_mu = None,
      fc_var = None,
      decoder_input = None,
      decoder = None,
      final_layer = None,
      output_layer = None\<rparr>"

subsection \<open>build\<close>

text \<open>The loop of lines 34 to 42: one block per hidden dimension.\<close>

fun encoder_modules :: "int \<Rightarrow> int list \<Rightarrow> error + layer list list" where
  "encoder_modules cin [] = Inr []"
| "encoder_modules cin (h_dim # hs) =
     bind_err (nn_Conv2d cin h_dim 3 2 1) (\<lambda>conv.
     bind_err (nn_BatchNorm2d h_dim) (\<lambda>bn.
     bind_err (encoder_modules h_dim hs) (\<lambda>ms.
       Inr ([conv, bn, LeakyReLU] # ms))))"

text \<open>The loop of lines 58 to 69, over neighbouring entries of the reversed list.\<close>

fun decoder_modules :: "int list \<Rightarrow> error + layer list list" where
  "decoder_modules (a # b # hs) =
     bind_err (nn_ConvTranspose2d a b 3 2 1 1) (\<lambda>ct.
     bind_err (nn_BatchNorm2d b) (\<lambda>bn.
     bind_err (decoder_modules (b # hs)) (\<lambda>ms.
       Inr ([ct, bn, LeakyReLU] # ms))))"
| "decoder_modules hs = Inr []"

text \<open>\<^verbatim>\<open>xs[-1]\<close> raises IndexError on an empty sequence.\<close>

definition py_last :: "'a list \<Rightarrow> error + 'a" where
  "py_last xs = (if xs = [] then Inl IndexError else Inr (last xs))"

definition final_modules :: "int \<Rightarrow> error + layer list" where
  "final_modules h =
     bind_err (nn_ConvTranspose2d h h 3 2 1 1) (\<lambda>ct.
     bind_err (nn_BatchNorm2d h) (\<lambda>bn.
       Inr [ct, bn, LeakyReLU]))"

text \<open>\<^verbatim>\<open>int(x)\<close> of a Python float truncates towards zero.\<close>

definition py_int :: "real \<Rightarrow> int" where
  "py_int x = (if 0 \<le> x then \<lfloor>x\<rfloor> else \<lceil>x\<rceil>)"

text \<open>Line 89, with \<^verbatim>\<open>/\<close> the true division of Python.\<close>

definition output_kernel :: "nat \<Rightarrow> nat \<Rightarrow> int" where
  "output_kernel required_dim current_dim =
     py_int (- real_of_int ((int required_dim - 1) * 1 + 1 - 2 * 1 - int current_dim) / 1 + 1)"

text \<open>
  Line 84 and lines 122 to 125: the decoder stack without the output layer.
\<close>

definition decoder_stack ::
  "numerics \<Rightarrow> layer \<Rightarrow> nat list \<Rightarrow> layer list list \<Rightarrow> layer list \<Rightarrow> tensor
     \<Rightarrow> error + tensor" where
  "decoder_stack nv dec_in ers dec fin z =
     bind_err (layer_forward nv Decoder_input dec_in z) (\<lambda>r.
     bind_err (view_rows r ers) (\<lambda>r.
     bind_err (blocks_forward nv Decoder dec r) (\<lambda>r.
       block_forward nv Final_layer fin r)))"

text \<open>
  \<open>build\<close> assigns attributes as it goes, so an exception leaves the object with the
  attributes assigned so far: the result is the object after the call together with
  the outcome.  \<open>build_layers\<close> is the method up to line 93, where \<open>built\<close> is set; the
  layers it passes the dummy batch through are the ones it has just constructed, which
  are in training mode whatever the flag of the object is.  \<^verbatim>\<open>np.prod\<close> of an empty
  shape is the float 1.0, which \<^verbatim>\<open>nn.Linear\<close> rejects with TypeError.
\<close>

definition build_layers :: "numerics \<Rightarrow> VanillaVAE \<Rightarrow> tensor \<Rightarrow> VanillaVAE \<times> (error + unit)" where
  "build_layers nv self dummy_batch =
     (let hidden = hidden_dims self; input_shape = shape dummy_batch in
      stage self (encoder_modules (in_channels self) hidden) (\<lambda>modules.
      let self = self\<lparr>encoder := Some modules\<rparr> in
      stage self (blocks_forward nv Encoder modules dummy_batch)
        (\<lambda>dummy_encoder_result.
      let ers = drop 1 (shape dummy_encoder_result);
          self = self\<lparr>encoder_result_shape := Some ers\<rparr> in
      stage self (if ers = [] then Inl TypeError
                  else nn_Linear (int (prod_list ers)) (latent_dim self)) (\<lambda>fm.
      let self = self\<lparr>fc_mu := Some fm\<rparr> in
      stage self (nn_Linear (int (prod_list ers)) (latent_dim self)) (\<lambda>fv.
      let self = self\<lparr>fc_var := Some fv\<rparr> in
      stage self (torch_flatten dummy_encoder_result) (\<lambda>flat.
      stage self (layer_forward nv Fc_mu fm flat) (\<lambda>dummy_mu.
      stage self (nn_Linear (latent_dim self) (int (prod_list ers))) (\<lambda>di.
      let self = self\<lparr>decoder_input := Some di\<rparr>;
          hidden_dims_r = rev hidden in
      stage self (decoder_modules hidden_dims_r) (\<lambda>dms.
      let self = self\<lparr>decoder := Some dms\<rparr> in
      stage self (py_last hidden_dims_r) (\<lambda>h_last.
      stage self (final_modules h_last) (\<lambda>fl.
      let self = self\<lparr>final_layer := Some fl\<rparr> in
      stage self (decoder_stack nv di ers dms fl dummy_mu)
        (\<lambda>dummy_decoder_result.
      stage self (py_last input_shape) (\<lambda>required_dim.
      stage self (py_last (shape dummy_decoder_result)) (\<lambda>current_dim.
      stage self (nn_Conv2d h_last (in_channels self)
                    (output_kernel required_dim current_dim) 1 1) (\<lambda>ol.
      (self\<lparr>output_layer := Some ol, built := True\<rparr>, Inr ()))))))))))))))))"

text \<open>
  Line 94 moves the module to the device after \<open>built\<close> has been set; an exception there
  leaves the flag set.
\<close>

definition build ::
  "numerics \<Rightarrow> machine \<Rightarrow> VanillaVAE \<Rightarrow> tensor \<Rightarrow> device \<Rightarrow> VanillaVAE \<times> (error + unit)" where
  "build nv mc self dummy_batch dev =
     (case build_layers nv self dummy_batch of
        (self, Inl e) \<Rightarrow> (self, Inl e)
      | (self, Inr u) \<Rightarrow> (self, module_to mc dev))"

text \<open>
  \<^verbatim>\<open>train(mode)\<close>, inherited: it sets the flag of the object and of every submodule that
  exists; \<^verbatim>\<open>eval()\<close> is \<^verbatim>\<open>train(False)\<close>.
\<close>

definition train :: "bool \<Rightarrow> VanillaVAE \<Rightarrow> VanillaVAE" where
  "train mode self =
     self\<lparr>training := mode,
          encoder := map_option (map (map (set_training mode))) (encoder self),
          fc_mu := map_option (set_training mode) (fc_mu self),
          fc_var := map_option (set_training mode) (fc_var self),
          decoder_input := map_option (set_training mode) (decoder_input self),
          decoder := map_option (map (map (set_training mode))) (decoder self),
          final_layer := map_option (map (set_training mode)) (final_layer self),
          output_layer := map_option (set_training mode) (output_layer self)\<rparr>"

subsection \<open>encode, decode, reparameterize, forward\<close>

definition encode :: "numerics \<Rightarrow> VanillaVAE \<Rightarrow> tensor \<Rightarrow> error + tensor list" where
  "encode nv self input =
     (if \<not> built self then Inl not_built else
      bind_err (getattr (encoder self) ''encoder'') (\<lambda>enc.
      bind_err (blocks_forward nv Encoder enc input) (\<lambda>result.
      bind_err (torch_flatten result) (\<lambda>result.
      bind_err (getattr (fc_mu self) ''fc_mu'') (\<lambda>fm.
      bind_err (layer_forward nv Fc_mu fm result) (\<lambda>mu.
      bind_err (getattr (fc_var self) ''fc_var'') (\<lambda>fv.
      bind_err (layer_forward nv Fc_var fv result) (\<lambda>log_var.
        Inr [mu, log_var]))))))))"

definition decode :: "numerics \<Rightarrow> VanillaVAE \<Rightarrow> tensor \<Rightarrow> error + tensor" where
  "decode nv self z =
     (if \<not> built self then Inl not_built else
      bind_err (getattr (decoder_input self) ''decoder_input'') (\<lambda>di.
      bind_err (layer_forward nv Decoder_input di z) (\<lambda>result.
      bind_err (getattr (encoder_result_shape self) ''encoder_result_shape'') (\<lambda>ers.
      bind_err (view_rows result ers) (\<lambda>result.
      bind_err (getattr (decoder self) ''decoder'') (\<lambda>dec.
      bind_err (blocks_forward nv Decoder dec result) (\<lambda>result.
      bind_err (getattr (final_layer self) ''final_layer'') (\<lambda>fl.
      bind_err (block_forward nv Final_layer fl result) (\<lambda>result.
      bind_err (getattr (output_layer self) ''output_layer'') (\<lambda>ol.
        layer_forward nv Output_layer ol result))))))))))"

text \<open>
  The random draws are a parameter: \<open>noise i\<close> is the \<open>i\<close>-th number the generator hands
  out, so \<^verbatim>\<open>torch.randn_like(t)\<close> is the tensor of the shape of \<open>t\<close> filled with the first
  draws.  \<^verbatim>\<open>torch.randn(n, d)\<close> raises RuntimeError for a negative size.
\<close>

definition randn_like :: "(nat \<Rightarrow> real) \<Rightarrow> tensor \<Rightarrow> tensor" where
  "randn_like noise t =
     \<lparr>shape = shape t, vals = map noise [0..<numel (shape t)], requires_grad = False\<rparr>"

definition randn :: "(nat \<Rightarrow> real) \<Rightarrow> int list \<Rightarrow> error + tensor" where
  "randn noise sizes =
     (if list_ex (\<lambda>n. n < 0) sizes then Inl RuntimeError
      else Inr \<lparr>shape = map nat sizes,
                vals = map noise [0..<numel (map nat sizes)],
                requires_grad = False\<rparr>)"

definition reparameterize :: "(nat \<Rightarrow> real) \<Rightarrow> tensor \<Rightarrow> tensor \<Rightarrow> error + tensor" where
  "reparameterize noise mu logvar =
     (let std = tensor_exp (scalar_mul 0.5 logvar);
          eps = randn_like noise std in
      bind_err (tensor_mul eps std) (\<lambda>es. tensor_add es mu))"

text \<open>\<^verbatim>\<open>mu, log_var = self.encode(input)\<close> unpacks a list of exactly two tensors.\<close>

definition unpack2 :: "'a list \<Rightarrow> error + 'a \<times> 'a" where
  "unpack2 xs = (case xs of [a, b] \<Rightarrow> Inr (a, b) | _ \<Rightarrow> Inl ValueError)"

definition forward ::
  "numerics \<Rightarrow> (nat \<Rightarrow> real) \<Rightarrow> VanillaVAE \<Rightarrow> tensor \<Rightarrow> error + tensor list" where
  "forward nv noise self input =
     (if \<not> built self then Inl not_built else
      bind_err (encode nv self input) (\<lambda>ml.
      bind_err (unpack2 ml) (\<lambda>(mu, log_var).
      bind_err (reparameterize noise mu log_var) (\<lambda>z.
      bind_err (decode nv self z) (\<lambda>r.
        Inr [r, input, mu, log_var])))))"

subsection \<open>loss_function, sample, generate\<close>

definition py_index :: "'a list \<Rightarrow> nat \<Rightarrow> error + 'a" where
  "py_index xs i = (if i < length xs then Inr (xs ! i) else Inl IndexError)"

definition py_getitem :: "(string \<times> 'a) list \<Rightarrow> string \<Rightarrow> error + 'a" where
  "py_getitem d k = (case map_of d k of None \<Rightarrow> Inl (KeyError k) | Some v \<Rightarrow> Inr v)"

text \<open>Line 169.\<close>

definition kld_loss :: "tensor \<Rightarrow> tensor \<Rightarrow> error + tensor" where
  "kld_loss mu log_var =
     bind_err (tensor_sub (scalar_add 1 log_var) (tensor_pow mu 2)) (\<lambda>a.
     bind_err (tensor_sub a (tensor_exp log_var)) (\<lambda>b.
     bind_err (torch_sum b 1) (\<lambda>c.
       torch_mean (scalar_mul (- 0.5) c) 0)))"

text \<open>
  The positional arguments are a list, the keyword arguments a dictionary with numbers
  as values; the result is the dictionary of line 172.
\<close>

definition loss_function ::
  "VanillaVAE \<Rightarrow> tensor list \<Rightarrow> (string \<times> real) list \<Rightarrow> error + (string \<times> tensor) list" where
  "loss_function self args kwargs =
     (if \<not> built self then Inl not_built else
      bind_err (py_index args 0) (\<lambda>recons.
      bind_err (py_index args 1) (\<lambda>input.
      bind_err (py_index args 2) (\<lambda>mu.
      bind_err (py_index args 3) (\<lambda>log_var.
      bind_err (py_getitem kwargs ''M_N'') (\<lambda>kld_weight.
      bind_err (mse_loss recons input) (\<lambda>recons_loss.
      bind_err (kld_loss mu log_var) (\<lambda>kld.
      bind_err (tensor_add recons_loss (scalar_mul kld_weight kld)) (\<lambda>loss.
        Inr [(''loss'', loss),
             (''Reconstruction_Loss'', detach recons_loss),
             (''KLD'', tensor_neg (detach kld))])))))))))"

definition sample ::
  "numerics \<Rightarrow> (nat \<Rightarrow> real) \<Rightarrow> machine \<Rightarrow> VanillaVAE \<Rightarrow> int \<Rightarrow> device \<Rightarrow> error + tensor" where
  "sample nv noise mc self num_samples current_device =
     bind_err (randn noise [num_samples, latent_dim self]) (\<lambda>z.
     bind_err (tensor_to mc z current_device) (\<lambda>z.
       decode nv self z))"


subsection \<open>Calls on one object\<close>

text \<open>
  The public methods, as calls on a model object.  Only \<open>build\<close> assigns attributes of
  the object; \<open>train\<close> sets the modes; no other method of the class assigns to \<open>self\<close>, so
  the object is the same after it.
\<close>

datatype call =
    Call_build tensor device
  | Call_encode tensor
  | Call_decode tensor
  | Call_reparameterize tensor tensor
  | Call_forward tensor
  | Call_loss_function "tensor list" "(string \<times> real) list"
  | Call_sample int device
  | Call_generate tensor
  | Call_train bool

fun exec :: "numerics \<Rightarrow> machine \<Rightarrow> call \<Rightarrow> VanillaVAE \<Rightarrow> VanillaVAE" where
  "exec nv mc (Call_build dummy_batch dev) self = fst (build nv mc self dummy_batch dev)"
| "exec nv mc (Call_train mode) self = train mode self"
| "exec nv mc c self = self"

definition run :: "numerics \<Rightarrow> machine \<Rightarrow> call list \<Rightarrow> VanillaVAE \<Rightarrow> VanillaVAE" where
  "run nv mc cs self = fold (exec nv mc) cs self"

subsection \<open>Concrete instances\<close>

text \<open>
  A layer numerics and a noise source that return 0 everywhere, a zero tensor, and a
  machine whose only device is \<^verbatim>\<open>'cpu'\<close>.
\<close>

definition zero_numerics :: numerics where
  "zero_numerics p l x i = 0"

definition cpu :: device where
  "cpu = Device_name ''cpu''"

definition cpu_only :: machine where
  "cpu_only dev = (if dev = Device_name ''cpu'' then None else Some RuntimeError)"

definition zero_noise :: "nat \<Rightarrow> real" where
  "zero_noise i = 0"

definition zeros :: "nat list \<Rightarrow> tensor" where
  "zeros s = \<lparr>shape = s, vals = replicate (prod_list s) 0, requires_grad = False\<rparr>"

text \<open>
  Two built models with one hidden dimension of 8 channels, one input channel and two
  latent dimensions: one built on a square batch of 2 by 2 images, one on a batch of
  images 5 high and 4 wide.
\<close>

definition square_model :: VanillaVAE where
  "square_model =
     fst (build zero_numerics cpu_only (init 1 2 (Some [8])) (zeros [2, 1, 2, 2]) cpu)"

definition oblong_model :: VanillaVAE where
  "oblong_model =
     fst (build zero_numerics cpu_only (init 1 2 (Some [8])) (zeros [2, 1, 5, 4]) cpu)"

text \<open>Small tensors for concrete evaluations, and a noise source that counts up.\<close>

definition t_recons :: tensor where
  "t_recons = \<lparr>shape = [1, 1], vals = [1], requires_grad = True\<rparr>"

definition t_input :: tensor where
  "t_input = \<lparr>shape = [1, 1], vals = [3], requires_grad = False\<rparr>"

definition t_mu :: tensor where
  "t_mu = \<lparr>shape = [1, 2], vals = [1, 2], requires_grad = True\<rparr>"

definition t_log_var :: tensor where
  "t_log_var = \<lparr>shape = [1, 2], vals = [0, 0], requires_grad = True\<rparr>"

definition ramp_noise :: "nat \<Rightarrow> real" where
  "ramp_noise i = real i"

subsection \<open>The KL term as the specification words it\<close>

text \<open>
  For \<open>mu\<close> and \<open>log_var\<close> of shape \<open>[B, D]\<close>, read in row-major order: the mean over the
  batch dimension of \<open>-0.5\<close> times the sum over the latent dimension of
  \<open>1 + log_var - mu\<^sup>2 - exp log_var\<close>.
\<close>

definition kld_spec :: "nat \<Rightarrow> nat \<Rightarrow> real list \<Rightarrow> real list \<Rightarrow> real" where
  "kld_spec B D mu log_var =
     (\<Sum>b<B. - 0.5 * (\<Sum>d<D. 1 + log_var ! (b * D + d) - (mu ! (b * D + d))\<^sup>2
                                - exp (log_var ! (b * D + d)))) / real B"

section \<open>Basic facts\<close>

lemma bind_err_Inl [simp]: "bind_err (Inl e) k = Inl e"
  by (simp add: bind_err_def)

lemma bind_err_Inr [simp]: "bind_err (Inr a) k = k a"
  by (simp add: bind_err_def)

lemma bind_err_eq_Inr: "bind_err r k = Inr b \<longleftrightarrow> (\<exists>a. r = Inr a \<and> k a = Inr b)"
  by (cases r) simp_all

lemma bind_err_neq:
  assumes "r \<noteq> Inl e" and "\<And>a. k a \<noteq> Inl e"
  shows "bind_err r k \<noteq> Inl e"
  using assms by (cases r) simp_all

lemma stage_Inl [simp]: "stage s (Inl e) k = (s, Inl e)"
  by (simp add: stage_def)

lemma stage_Inr [simp]: "stage s (Inr a) k = k a"
  by (simp add: stage_def)

lemma stage_cases:
  assumes "stage s r k = (s', out)"
  obtains e where "r = Inl e" "s' = s" "out = Inl e"
        | a where "r = Inr a" "k a = (s', out)"
  using assms by (cases r) simp_all


lemma stage_eq_Inr: "stage s r k = (s', Inr u) \<longleftrightarrow> (\<exists>a. r = Inr a \<and> k a = (s', Inr u))"
  by (cases r) simp_all

subsection \<open>The library raises no AttributeError\<close>

lemma conv2d_shape_no_attr: "conv2d_shape cin cout k s p sh \<noteq> Inl (AttributeError m)"
  by (induction cin cout k s p sh rule: conv2d_shape.induct) simp_all

lemma convT2d_shape_no_attr: "convT2d_shape cin cout k s p op sh \<noteq> Inl (AttributeError m)"
  by (induction cin cout k s p op sh rule: convT2d_shape.induct) simp_all

lemma batchnorm2d_shape_no_attr: "batchnorm2d_shape tr f sh \<noteq> Inl (AttributeError m)"
  by (induction tr f sh rule: batchnorm2d_shape.induct) simp_all

lemma layer_shape_no_attr: "layer_shape l sh \<noteq> Inl (AttributeError m)"
  by (cases l)
    (simp_all add: conv2d_shape_no_attr convT2d_shape_no_attr batchnorm2d_shape_no_attr
      linear_shape_def)

lemma layer_forward_no_attr: "layer_forward nv p l x \<noteq> Inl (AttributeError m)"
  using layer_shape_no_attr [of l "shape x" m]
  by (auto simp: layer_forward_def split: sum.splits)

lemma Sequential_forward_no_attr:
  assumes "\<And>i l x. f i l x \<noteq> Inl (AttributeError m)"
  shows "Sequential_forward f i ls x \<noteq> Inl (AttributeError m)"
proof (induction ls arbitrary: i x)
  case Nil
  show ?case by simp
next
  case (Cons l ls)
  show ?case using assms [of i l x] Cons.IH by (auto split: sum.splits)
qed

lemma block_forward_no_attr: "block_forward nv p ls x \<noteq> Inl (AttributeError m)"
  unfolding block_forward_def
  by (rule Sequential_forward_no_attr) (rule layer_forward_no_attr)

lemma blocks_forward_no_attr: "blocks_forward nv p bs x \<noteq> Inl (AttributeError m)"
  unfolding blocks_forward_def
  by (rule Sequential_forward_no_attr) (rule block_forward_no_attr)

lemma getattr_neq_not_built:
  "name \<noteq> ''build model first using model.build'' \<Longrightarrow> getattr a name \<noteq> Inl not_built"
  by (cases a) (simp_all add: getattr_def not_built_def)

lemma torch_flatten_no_attr: "torch_flatten t \<noteq> Inl (AttributeError m)"
  by (simp add: torch_flatten_def split: list.splits)

lemma view_rows_no_attr: "view_rows t s \<noteq> Inl (AttributeError m)"
  by (simp add: view_rows_def)

lemma tensor_binop_no_attr: "tensor_binop f a b \<noteq> Inl (AttributeError m)"
  by (simp add: tensor_binop_def split: option.splits)

lemma reparameterize_no_attr: "reparameterize noise mu lv \<noteq> Inl (AttributeError m)"
  unfolding reparameterize_def Let_def
  by (intro bind_err_neq) (simp_all add: tensor_mul_def tensor_add_def tensor_binop_no_attr)

lemma unpack2_no_attr: "unpack2 xs \<noteq> Inl (AttributeError m)"
  by (simp add: unpack2_def split: list.splits)

lemma py_index_no_attr: "py_index xs i \<noteq> Inl (AttributeError m)"
  by (simp add: py_index_def)

lemma py_getitem_no_attr: "py_getitem d k \<noteq> Inl (AttributeError m)"
  by (simp add: py_getitem_def split: option.splits)

lemma mse_loss_no_attr: "mse_loss a b \<noteq> Inl (AttributeError m)"
  using tensor_binop_no_attr [of "(-)" a b m]
  by (auto simp: mse_loss_def tensor_sub_def split: sum.splits)

lemma torch_sum_no_attr: "torch_sum t d \<noteq> Inl (AttributeError m)"
  by (simp add: torch_sum_def)

lemma torch_mean_no_attr: "torch_mean t d \<noteq> Inl (AttributeError m)"
  using torch_sum_no_attr [of t d m]
  by (auto simp: torch_mean_def split: sum.splits)

lemma kld_loss_no_attr: "kld_loss mu lv \<noteq> Inl (AttributeError m)"
  unfolding kld_loss_def
  by (intro bind_err_neq)
    (simp_all add: tensor_sub_def tensor_binop_no_attr torch_sum_no_attr torch_mean_no_attr)

subsection \<open>The guard of the four guarded methods\<close>

lemma encode_built: "built self \<Longrightarrow> encode nv self x \<noteq> Inl not_built"
  unfolding encode_def
  apply simp
  apply (intro bind_err_neq getattr_neq_not_built)
  apply (simp_all add: not_built_def blocks_forward_no_attr torch_flatten_no_attr
      layer_forward_no_attr)
  done

lemma decode_built: "built self \<Longrightarrow> decode nv self x \<noteq> Inl not_built"
  unfolding decode_def
  apply simp
  apply (intro bind_err_neq getattr_neq_not_built)
  apply (simp_all add: not_built_def blocks_forward_no_attr block_forward_no_attr
      view_rows_no_attr layer_forward_no_attr)
  done

lemma forward_built: "built self \<Longrightarrow> forward nv noise self x \<noteq> Inl not_built"
  unfolding forward_def split_def
  apply simp
  apply (intro bind_err_neq encode_built decode_built)
  apply (simp_all add: not_built_def reparameterize_no_attr unpack2_no_attr)
  done

lemma loss_function_built: "built self \<Longrightarrow> loss_function self args kwargs \<noteq> Inl not_built"
  unfolding loss_function_def
  apply simp
  apply (intro bind_err_neq)
  apply (simp_all add: not_built_def py_index_no_attr py_getitem_no_attr mse_loss_no_attr
      kld_loss_no_attr tensor_add_def tensor_binop_no_attr)
  done

subsection \<open>What a successful build has done\<close>

lemma build_layers_InrE:
  assumes "build_layers nv self d = (self', Inr ())"
  obtains modules enc_res fm fv flat dummy_mu di dms h_last fl ddr required_dim current_dim ol
  where "encoder_modules (in_channels self) (hidden_dims self) = Inr modules"
    and "blocks_forward nv Encoder modules d = Inr enc_res"
    and "drop 1 (shape enc_res) \<noteq> []"
    and "nn_Linear (int (prod_list (drop 1 (shape enc_res)))) (latent_dim self) = Inr fm"
    and "nn_Linear (int (prod_list (drop 1 (shape enc_res)))) (latent_dim self) = Inr fv"
    and "torch_flatten enc_res = Inr flat"
    and "layer_forward nv Fc_mu fm flat = Inr dummy_mu"
    and "nn_Linear (latent_dim self) (int (prod_list (drop 1 (shape enc_res)))) = Inr di"
    and "decoder_modules (rev (hidden_dims self)) = Inr dms"
    and "py_last (rev (hidden_dims self)) = Inr h_last"
    and "final_modules h_last = Inr fl"
    and "decoder_stack nv di (drop 1 (shape enc_res)) dms fl dummy_mu = Inr ddr"
    and "py_last (shape d) = Inr required_dim"
    and "py_last (shape ddr) = Inr current_dim"
    and "nn_Conv2d h_last (in_channels self) (output_kernel required_dim current_dim) 1 1 = Inr ol"
    and "self' = self\<lparr>encoder := Some modules,
           encoder_result_shape := Some (drop 1 (shape enc_res)),
           fc_mu := Some fm, fc_var := Some fv, decoder_input := Some di,
           decoder := Some dms, final_layer := Some fl, output_layer := Some ol,
           built := True\<rparr>"
  using assms unfolding build_layers_def Let_def stage_eq_Inr
  by (auto split: if_splits)

lemma build_fst: "fst (build nv mc self d dev) = fst (build_layers nv self d)"
  by (simp add: build_def split: prod.splits sum.splits)

lemma build_snd_Inr:
  "snd (build nv mc self d dev) = Inr () \<longleftrightarrow>
     snd (build_layers nv self d) = Inr () \<and> mc dev = None"
  by (auto simp: build_def module_to_def split: prod.splits sum.splits option.splits)

lemma build_snd_device:
  "snd (build_layers nv self d) = Inr () \<Longrightarrow> mc dev = Some e \<Longrightarrow>
     snd (build nv mc self d dev) = Inl e"
  by (auto simp: build_def module_to_def split: prod.splits sum.splits)

lemma build_Inr_layers:
  assumes "build nv mc self d dev = (self', Inr ())"
  shows "build_layers nv self d = (self', Inr ())"
proof -
  from assms have "fst (build nv mc self d dev) = self'" "snd (build nv mc self d dev) = Inr ()"
    by simp_all
  then show ?thesis
    by (simp add: build_fst build_snd_Inr prod_eq_iff)
qed

lemma built_build_layers:
  "built (fst (build_layers nv self d)) \<longleftrightarrow> built self \<or> snd (build_layers nv self d) = Inr ()"
  unfolding build_layers_def Let_def stage_def
  by (simp split: sum.splits)

lemma built_build:
  "built (fst (build nv mc self d dev)) \<longleftrightarrow>
     built self \<or> snd (build_layers nv self d) = Inr ()"
  by (simp add: build_fst built_build_layers)

lemma built_train [simp]: "built (train mode self) = built self"
  by (simp add: train_def)

lemma exec_built:
  "built (exec nv mc c self) \<longleftrightarrow>
     built self \<or> (\<exists>d dev. c = Call_build d dev \<and> snd (build_layers nv self d) = Inr ())"
  by (cases c) (simp_all add: built_build)

lemma run_Cons: "run nv mc (c # cs) self = run nv mc cs (exec nv mc c self)"
  by (simp add: run_def)

lemma run_built_mono: "built self \<Longrightarrow> built (run nv mc cs self)"
proof (induction cs arbitrary: self)
  case Nil
  then show ?case by (simp add: run_def)
next
  case (Cons c cs)
  from Cons.prems have "built (exec nv mc c self)" by (simp add: exec_built)
  then show ?case by (simp add: run_Cons Cons.IH)
qed

lemma run_built_origin:
  "built (run nv mc cs self) \<Longrightarrow> \<not> built self \<Longrightarrow>
     \<exists>pre d dev post. cs = pre @ Call_build d dev # post \<and> \<not> built (run nv mc pre self)
        \<and> snd (build_layers nv (run nv mc pre self) d) = Inr ()"
proof (induction cs arbitrary: self)
  case Nil
  then show ?case by (simp add: run_def)
next
  case (Cons c cs)
  show ?case
  proof (cases "built (exec nv mc c self)")
    case True
    with Cons.prems(2) obtain d dev where "c = Call_build d dev"
      "snd (build_layers nv self d) = Inr ()"
      by (auto simp: exec_built)
    then have "c # cs = [] @ Call_build d dev # cs \<and> \<not> built (run nv mc [] self)
        \<and> snd (build_layers nv (run nv mc [] self) d) = Inr ()"
      using Cons.prems(2) by (simp add: run_def)
    then show ?thesis by blast
  next
    case False
    from Cons.prems(1) have "built (run nv mc cs (exec nv mc c self))" by (simp add: run_Cons)
    from Cons.IH [OF this False] obtain pre d dev post where
      "cs = pre @ Call_build d dev # post" "\<not> built (run nv mc pre (exec nv mc c self))"
      "snd (build_layers nv (run nv mc pre (exec nv mc c self)) d) = Inr ()" by blast
    then have "c # cs = (c # pre) @ Call_build d dev # post
        \<and> \<not> built (run nv mc (c # pre) self)
        \<and> snd (build_layers nv (run nv mc (c # pre) self) d) = Inr ()"
      by (simp add: run_Cons)
    then show ?thesis by blast
  qed
qed

subsection \<open>The two concrete models\<close>

lemma build_square:
  "build zero_numerics cpu_only (init 1 2 (Some [8])) (zeros [2, 1, 2, 2]) cpu =
     (\<lparr>latent_dim = 2, hidden_dims = [8], in_channels = 1, built = True, training = True,
       encoder = Some [[Conv2d 1 8 3 2 1, BatchNorm2d 8 True, LeakyReLU]],
       encoder_result_shape = Some [8, 1, 1], fc_mu = Some (Linear 8 2),
       fc_var = Some (Linear 8 2), decoder_input = Some (Linear 2 8), decoder = Some [],
       final_layer = Some [ConvTranspose2d 8 8 3 2 1 1, BatchNorm2d 8 True, LeakyReLU],
       output_layer = Some (Conv2d 8 1 3 1 1)\<rparr>, Inr ())"
  by code_simp

lemma build_oblong:
  "build zero_numerics cpu_only (init 1 2 (Some [8])) (zeros [2, 1, 5, 4]) cpu =
     (\<lparr>latent_dim = 2, hidden_dims = [8], in_channels = 1, built = True, training = True,
       encoder = Some [[Conv2d 1 8 3 2 1, BatchNorm2d 8 True, LeakyReLU]],
       encoder_result_shape = Some [8, 3, 2], fc_mu = Some (Linear 48 2),
       fc_var = Some (Linear 48 2), decoder_input = Some (Linear 2 48), decoder = Some [],
       final_layer = Some [ConvTranspose2d 8 8 3 2 1 1, BatchNorm2d 8 True, LeakyReLU],
       output_layer = Some (Conv2d 8 1 3 1 1)\<rparr>, Inr ())"
  by code_simp

lemma square_model_built: "built square_model"
  unfolding square_model_def build_square by simp

section \<open>The guard on unbuilt models\<close>

text \<open>
  Claim C3.  On a model whose \<open>built\<close> flag is False, \<open>encode\<close>, \<open>decode\<close>, \<open>forward\<close> and
  \<open>loss_function\<close> raise the AttributeError with the text
  \<^verbatim>\<open>build model first using model.build\<close>, whatever their arguments; once the flag is
  True none of the four raises that exception, whatever else it may raise.
\<close>

theorem guarded_methods_raise_iff_unbuilt:
  "(encode nv self x = Inl not_built \<longleftrightarrow> \<not> built self)
   \<and> (decode nv self z = Inl not_built \<longleftrightarrow> \<not> built self)
   \<and> (forward nv noise self x = Inl not_built \<longleftrightarrow> \<not> built self)
   \<and> (loss_function self args kwargs = Inl not_built \<longleftrightarrow> \<not> built self)"
proof -
  have "\<not> built self \<Longrightarrow> encode nv self x = Inl not_built"
    by (simp add: encode_def)
  moreover have "\<not> built self \<Longrightarrow> decode nv self z = Inl not_built"
    by (simp add: decode_def)
  moreover have "\<not> built self \<Longrightarrow> forward nv noise self x = Inl not_built"
    by (simp add: forward_def)
  moreover have "\<not> built self \<Longrightarrow> loss_function self args kwargs = Inl not_built"
    by (simp add: loss_function_def)
  ultimately show ?thesis
    using encode_built [of self nv x] decode_built [of self nv z]
      forward_built [of self nv noise x] loss_function_built [of self args kwargs]
    by blast
qed

theorem guarded_methods_raise_iff_unbuilt_witness:
  "encode zero_numerics (init 1 2 (Some [8])) (zeros [2, 1, 2, 2]) = Inl not_built
   \<and> decode zero_numerics (init 1 2 (Some [8])) (zeros [3, 2]) = Inl not_built
   \<and> forward zero_numerics zero_noise (init 1 2 (Some [8])) (zeros [2, 1, 2, 2]) = Inl not_built
   \<and> loss_function (init 1 2 (Some [8])) [] [] = Inl not_built
   \<and> encode zero_numerics square_model (zeros [2, 1, 2, 2]) \<noteq> Inl not_built
   \<and> decode zero_numerics square_model (zeros [3, 2]) \<noteq> Inl not_built
   \<and> forward zero_numerics zero_noise square_model (zeros [2, 1, 2, 2]) \<noteq> Inl not_built
   \<and> loss_function square_model [] [] \<noteq> Inl not_built"
proof -
  have u: "\<not> built (init 1 2 (Some [8]))"
    by (simp add: init_def)
  show ?thesis
    using u square_model_built
      guarded_methods_raise_iff_unbuilt [of zero_numerics "init 1 2 (Some [8])"
        "zeros [2, 1, 2, 2]" "zeros [3, 2]" zero_noise "[]" "[]"]
      guarded_methods_raise_iff_unbuilt [of zero_numerics square_model
        "zeros [2, 1, 2, 2]" "zeros [3, 2]" zero_noise "[]" "[]"]
    by simp
qed




section \<open>Tensor arithmetic\<close>

lemma chunks_Suc: "chunks (Suc k) n xs = chunks k n xs @ [take n (drop (k * n) xs)]"
  by (simp add: chunks_def)

lemma concat_chunks_take: "concat (chunks k n xs) = take (k * n) xs"
proof (induction k)
  case 0
  show ?case by (simp add: chunks_def)
next
  case (Suc k)
  have "take (k * n) xs @ take n (drop (k * n) xs) = take (k * n + n) xs"
    by (simp add: take_add)
  then show ?case by (simp add: chunks_Suc Suc.IH add.commute)
qed

lemma concat_chunks: "length xs = k * n \<Longrightarrow> concat (chunks k n xs) = xs"
  by (simp add: concat_chunks_take)

lemma length_chunks [simp]: "length (chunks k n xs) = k"
  by (simp add: chunks_def)

lemma nth_chunks: "i < k \<Longrightarrow> chunks k n xs ! i = take n (drop (i * n) xs)"
  by (simp add: chunks_def)

lemma length_chunk:
  assumes "c \<in> set (chunks k n xs)" and "length xs = k * n"
  shows "length c = n"
proof -
  from assms(1) obtain i where i: "i < k" and c: "c = take n (drop (i * n) xs)"
    by (auto simp: chunks_def)
  from i have "Suc i * n \<le> k * n" by (intro mult_le_mono1) simp
  with assms(2) have "n \<le> length xs - i * n" by simp
  with c show ?thesis by simp
qed

lemma broadcast_dims_same: "broadcast_dims xs xs = Some xs"
  by (induction xs) simp_all

lemma broadcast_shapes_same: "broadcast_shapes s s = Some s"
  by (simp add: broadcast_shapes_def broadcast_dims_same)

lemma expand_vals_same: "length v = prod_list s \<Longrightarrow> expand_vals s s v = v"
proof (induction s arbitrary: v)
  case Nil
  show ?case by simp
next
  case (Cons t ts)
  then have len: "length v = t * prod_list ts" by simp
  have "map (expand_vals ts ts) (chunks t (prod_list ts) v) = chunks t (prod_list ts) v"
    by (rule map_idI) (simp add: Cons.IH length_chunk [OF _ len])
  then show ?case by (simp add: concat_chunks [OF len])
qed

lemma expand_to_same:
  "length (vals x) = numel (shape x) \<Longrightarrow> expand_to (shape x) x = vals x"
  by (simp add: expand_to_def numel_def expand_vals_same)

lemma tensor_binop_same_shape:
  assumes "shape a = shape b"
    and "length (vals a) = numel (shape a)" and "length (vals b) = numel (shape b)"
  shows "tensor_binop f a b =
     Inr \<lparr>shape = shape a, vals = map2 f (vals a) (vals b),
          requires_grad = (requires_grad a \<or> requires_grad b)\<rparr>"
  using assms expand_to_same [of a] expand_to_same [of b]
  by (simp add: tensor_binop_def broadcast_shapes_same)

lemma reparameterize_same_shape:
  assumes "shape mu = shape logvar"
    and "length (vals mu) = numel (shape mu)" and "length (vals logvar) = numel (shape logvar)"
  shows "reparameterize noise mu logvar =
     Inr \<lparr>shape = shape mu,
          vals = map (\<lambda>i. noise i * exp (0.5 * vals logvar ! i) + vals mu ! i)
                   [0..<numel (shape mu)],
          requires_grad = (requires_grad logvar \<or> requires_grad mu)\<rparr>"
proof -
  let ?n = "numel (shape mu)"
  let ?std = "tensor_exp (scalar_mul 0.5 logvar)"
  let ?eps = "randn_like noise ?std"
  have std: "shape ?std = shape mu" "vals ?std = map (\<lambda>v. exp (0.5 * v)) (vals logvar)"
    "requires_grad ?std = requires_grad logvar"
    using assms(1) by (simp_all add: tensor_exp_def scalar_mul_def tensor_map_def)
  have eps: "shape ?eps = shape mu" "vals ?eps = map noise [0..<?n]" "\<not> requires_grad ?eps"
    using std(1) by (simp_all add: randn_like_def)
  let ?es = "\<lparr>shape = shape mu, vals = map2 (*) (vals ?eps) (vals ?std),
              requires_grad = requires_grad logvar\<rparr>"
  have mul: "tensor_mul ?eps ?std = Inr ?es"
    unfolding tensor_mul_def
    using tensor_binop_same_shape [of ?eps ?std "(*)"] eps std assms by simp
  have len_es: "length (vals ?es) = ?n"
    using eps(2) std(2) assms by simp
  have add: "tensor_add ?es mu =
      Inr \<lparr>shape = shape mu, vals = map2 (+) (vals ?es) (vals mu),
           requires_grad = (requires_grad logvar \<or> requires_grad mu)\<rparr>"
    unfolding tensor_add_def
    using tensor_binop_same_shape [of ?es mu "(+)"] len_es assms(2) by simp
  have "map2 (+) (vals ?es) (vals mu) =
      map (\<lambda>i. noise i * exp (0.5 * vals logvar ! i) + vals mu ! i) [0..<?n]"
    using assms eps(2) std(2) by (intro nth_equalityI) simp_all
  with mul add show ?thesis
    by (simp add: reparameterize_def Let_def)
qed


lemma vsum_one_chunks: "length c = n \<Longrightarrow> vsum (Suc 0) (chunks n (Suc 0) c) = [sum_list c]"
proof -
  assume len: "length c = n"
  have "map (\<lambda>x. x ! 0) (chunks n (Suc 0) c) = map (\<lambda>i. c ! i) [0..<n]"
    using len by (simp add: chunks_def hd_drop_conv_nth flip: hd_conv_nth take_hd_drop)
  also have "\<dots> = c" using len map_nth [of c] by simp
  finally show ?thesis by (simp add: vsum_def)
qed

lemma sum_vals_0_vector: "length c = n \<Longrightarrow> sum_vals 0 [n] c = [sum_list c]"
  by (simp add: vsum_one_chunks)

lemma sum_vals_1_matrix:
  assumes "length v = B * D"
  shows "sum_vals (Suc 0) [B, D] v = map sum_list (chunks B D v)"
proof -
  have "sum_vals (Suc 0) [B, D] v = concat (map (sum_vals 0 [D]) (chunks B D v))"
    by (simp del: sum_vals.simps(2))
  also have "map (sum_vals 0 [D]) (chunks B D v) = map (\<lambda>c. [sum_list c]) (chunks B D v)"
    by (rule map_cong [OF refl]) (simp only: sum_vals_0_vector length_chunk [OF _ assms])
  also have "concat (map (\<lambda>c. [sum_list c]) (chunks B D v)) = map sum_list (chunks B D v)"
    by simp
  finally show ?thesis .
qed

lemma chunk_of_map_upt:
  assumes "b < B"
  shows "take D (drop (b * D) (map g [0..<B * D])) = map g [b * D..<b * D + D]"
proof -
  from assms have "Suc b * D \<le> B * D" by (intro mult_le_mono1) simp
  then have "b * D + D \<le> B * D" by simp
  then show ?thesis by (simp add: drop_map take_map min_def)
qed

lemma sum_list_chunks_map_upt:
  "sum_list (map (\<lambda>c. k * sum_list c) (chunks B D (map g [0..<B * D]))) =
     (\<Sum>b<B. k * (\<Sum>d<D. g (b * D + d)))" for k :: real
proof -
  have "sum_list (map (\<lambda>c. k * sum_list c) (chunks B D (map g [0..<B * D]))) =
      sum_list (map (\<lambda>b. k * sum_list (take D (drop (b * D) (map g [0..<B * D])))) [0..<B])"
    by (simp add: chunks_def comp_def)
  also have "\<dots> = (\<Sum>b<B. k * sum_list (take D (drop (b * D) (map g [0..<B * D]))))"
    by (simp add: interv_sum_list_conv_sum_set_nat atLeast0LessThan)
  also have "\<dots> = (\<Sum>b<B. k * (\<Sum>d<D. g (b * D + d)))"
  proof (rule sum.cong [OF refl])
    fix b assume "b \<in> {..<B}"
    then have b: "b < B" by simp
    have "sum_list (map g [b * D..<b * D + D]) = sum g {0 + b * D..<D + b * D}"
      by (simp add: interv_sum_list_conv_sum_set_nat add.commute)
    also have "\<dots> = (\<Sum>d<D. g (d + b * D))"
      by (simp only: sum.shift_bounds_nat_ivl atLeast0LessThan)
    finally show "k * sum_list (take D (drop (b * D) (map g [0..<B * D]))) =
        k * (\<Sum>d<D. g (b * D + d))"
      by (simp add: chunk_of_map_upt [OF b] add.commute)
  qed
  finally show ?thesis .
qed

lemma kld_loss_matrix:
  assumes mu: "shape mu = [B, D]" "length (vals mu) = B * D"
    and lv: "shape log_var = [B, D]" "length (vals log_var) = B * D"
  shows "kld_loss mu log_var =
     Inr \<lparr>shape = [], vals = [kld_spec B D (vals mu) (vals log_var)],
          requires_grad = (requires_grad log_var \<or> requires_grad mu)\<rparr>"
proof -
  define g where "g i = 1 + vals log_var ! i - (vals mu ! i)\<^sup>2 - exp (vals log_var ! i)" for i
  let ?rg = "requires_grad log_var \<or> requires_grad mu"
  let ?a = "\<lparr>shape = [B, D],
      vals = map2 (-) (map (\<lambda>v. 1 + v) (vals log_var)) (map (\<lambda>v. v ^ 2) (vals mu)),
      requires_grad = ?rg\<rparr>"
  have a: "tensor_sub (scalar_add 1 log_var) (tensor_pow mu 2) = Inr ?a"
    unfolding tensor_sub_def
    using tensor_binop_same_shape [of "scalar_add 1 log_var" "tensor_pow mu 2" "(-)"] mu lv
    by (simp add: scalar_add_def tensor_pow_def tensor_map_def numel_def)
  let ?b = "\<lparr>shape = [B, D], vals = map g [0..<B * D], requires_grad = ?rg\<rparr>"
  have "map2 (-) (vals ?a) (map exp (vals log_var)) = map g [0..<B * D]"
    using mu lv by (intro nth_equalityI) (simp_all add: g_def)
  then have b: "tensor_sub ?a (tensor_exp log_var) = Inr ?b"
    unfolding tensor_sub_def
    using tensor_binop_same_shape [of ?a "tensor_exp log_var" "(-)"] mu lv
    by (auto simp add: tensor_exp_def tensor_map_def numel_def)
  let ?c = "\<lparr>shape = [B], vals = map sum_list (chunks B D (map g [0..<B * D])),
      requires_grad = ?rg\<rparr>"
  have c: "torch_sum ?b 1 = Inr ?c"
    using sum_vals_1_matrix [of "map g [0..<B * D]" B D]
    by (simp add: torch_sum_def del: sum_vals.simps)
  let ?v = "map (\<lambda>c. - 0.5 * sum_list c) (chunks B D (map g [0..<B * D]))"
  have sc: "scalar_mul (- 0.5) ?c = \<lparr>shape = [B], vals = ?v, requires_grad = ?rg\<rparr>"
    by (simp add: scalar_mul_def tensor_map_def comp_def)
  have "sum_vals 0 [B] ?v = [sum_list ?v]"
    by (rule sum_vals_0_vector) simp
  then have m: "torch_mean \<lparr>shape = [B], vals = ?v, requires_grad = ?rg\<rparr> 0 =
      Inr \<lparr>shape = [], vals = [sum_list ?v / real B], requires_grad = ?rg\<rparr>"
    by (simp add: torch_mean_def torch_sum_def tensor_map_def del: sum_vals.simps)
  have "sum_list ?v / real B = kld_spec B D (vals mu) (vals log_var)"
    unfolding kld_spec_def sum_list_chunks_map_upt g_def by simp
  with a b c sc m show ?thesis
    by (simp add: kld_loss_def)
qed


lemma mse_loss_shape:
  "mse_loss a b = Inr m \<Longrightarrow> shape m = [] \<and> length (vals m) = 1"
  by (auto simp: mse_loss_def split: sum.splits)

lemma tensor_binop_data:
  assumes "shape a' = shape a" "vals a' = vals a" "shape b' = shape b" "vals b' = vals b"
    and "tensor_binop f a b = Inr t"
  shows "\<exists>t'. tensor_binop f a' b' = Inr t' \<and> shape t' = shape t \<and> vals t' = vals t"
  using assms by (auto simp: tensor_binop_def expand_to_def split: option.splits)

lemma tensor_binop_rg:
  "tensor_binop f a b = Inr t \<Longrightarrow> requires_grad t = (requires_grad a \<or> requires_grad b)"
  by (auto simp: tensor_binop_def split: option.splits)

lemma mse_loss_rg:
  "mse_loss a b = Inr t \<Longrightarrow> requires_grad t = (requires_grad a \<or> requires_grad b)"
  by (auto simp: mse_loss_def tensor_sub_def split: sum.splits dest: tensor_binop_rg)

lemma torch_sum_rg: "torch_sum a d = Inr t \<Longrightarrow> requires_grad t = requires_grad a"
  by (auto simp: torch_sum_def split: if_splits)

lemma torch_mean_rg: "torch_mean a d = Inr t \<Longrightarrow> requires_grad t = requires_grad a"
  by (auto simp: torch_mean_def tensor_map_def split: sum.splits dest: torch_sum_rg)

lemma kld_loss_rg:
  assumes "kld_loss mu lv = Inr t"
  shows "requires_grad t = (requires_grad mu \<or> requires_grad lv)"
proof -
  from assms obtain a b c where
    a: "tensor_sub (scalar_add 1 lv) (tensor_pow mu 2) = Inr a"
    and b: "tensor_sub a (tensor_exp lv) = Inr b"
    and c: "torch_sum b 1 = Inr c"
    and t: "torch_mean (scalar_mul (- 0.5) c) 0 = Inr t"
    unfolding kld_loss_def bind_err_eq_Inr by blast
  have "requires_grad a = (requires_grad lv \<or> requires_grad mu)"
    using tensor_binop_rg [OF a [unfolded tensor_sub_def]]
    by (simp add: scalar_add_def tensor_pow_def tensor_map_def)
  moreover have "requires_grad b = (requires_grad a \<or> requires_grad lv)"
    using tensor_binop_rg [OF b [unfolded tensor_sub_def]]
    by (simp add: tensor_exp_def tensor_map_def)
  moreover have "requires_grad c = requires_grad b"
    by (rule torch_sum_rg [OF c])
  moreover have "requires_grad t = requires_grad c"
    using torch_mean_rg [OF t] by (simp add: scalar_mul_def tensor_map_def)
  ultimately show ?thesis by blast
qed

lemma py_index_Inr: "py_index xs i = Inr x \<longleftrightarrow> i < length xs \<and> xs ! i = x"
  by (auto simp: py_index_def)

lemma loss_function_InrE:
  assumes "loss_function self args kwargs = Inr d"
  obtains w m kld loss where "built self" "4 \<le> length args"
    and "py_getitem kwargs ''M_N'' = Inr w"
    and "mse_loss (args ! 0) (args ! 1) = Inr m"
    and "kld_loss (args ! 2) (args ! 3) = Inr kld"
    and "tensor_add m (scalar_mul w kld) = Inr loss"
    and "d = [(''loss'', loss), (''Reconstruction_Loss'', detach m),
              (''KLD'', tensor_neg (detach kld))]"
proof -
  from assms have b: "built self"
    by (auto simp: loss_function_def split: if_splits)
  with assms show ?thesis
    by (auto simp: loss_function_def bind_err_eq_Inr py_index_Inr intro: that)
qed

lemma example_loss:
  "loss_function square_model [t_recons, t_input, t_mu, t_log_var] [(''M_N'', 2)] =
     Inr [(''loss'', \<lparr>shape = [], vals = [9], requires_grad = True\<rparr>),
          (''Reconstruction_Loss'', \<lparr>shape = [], vals = [4], requires_grad = False\<rparr>),
          (''KLD'', \<lparr>shape = [], vals = [- (5 / 2)], requires_grad = False\<rparr>)]"
proof -
  have m: "mse_loss t_recons t_input =
      Inr \<lparr>shape = [], vals = [4], requires_grad = True\<rparr>"
    using tensor_binop_same_shape [of t_recons t_input "(-)"]
    by (simp add: mse_loss_def tensor_sub_def t_recons_def t_input_def numel_def)
  have k: "kld_spec (Suc 0) 2 (vals t_mu) (vals t_log_var) = 5 / 2"
    by (simp add: kld_spec_def t_mu_def t_log_var_def lessThan_Suc eval_nat_numeral)
  have "kld_loss t_mu t_log_var =
      Inr \<lparr>shape = [], vals = [kld_spec 1 2 (vals t_mu) (vals t_log_var)],
           requires_grad = (requires_grad t_log_var \<or> requires_grad t_mu)\<rparr>"
    by (rule kld_loss_matrix) (simp_all add: t_mu_def t_log_var_def)
  then have kld: "kld_loss t_mu t_log_var =
      Inr \<lparr>shape = [], vals = [5 / 2], requires_grad = True\<rparr>"
    by (simp add: k) (simp add: t_mu_def)
  have add: "tensor_add \<lparr>shape = [], vals = [4], requires_grad = True\<rparr>
      (scalar_mul 2 \<lparr>shape = [], vals = [5 / 2], requires_grad = True\<rparr>) =
      Inr \<lparr>shape = [], vals = [9], requires_grad = True\<rparr>"
    unfolding tensor_add_def
    using tensor_binop_same_shape [of "\<lparr>shape = [], vals = [4], requires_grad = True\<rparr>"
        "scalar_mul 2 \<lparr>shape = [], vals = [5 / 2], requires_grad = True\<rparr>" "(+)"]
    by (simp add: scalar_mul_def tensor_map_def numel_def)
  show ?thesis
    using square_model_built m kld add
    by (simp add: loss_function_def py_index_def py_getitem_def detach_def tensor_neg_def
        tensor_map_def)
qed

section \<open>Reparameterization\<close>

text \<open>
  Claim C4.  For \<open>mu\<close> and \<open>logvar\<close> of one shape and a fixed noise draw, \<open>reparameterize\<close>
  returns the tensor of that shape whose entry \<open>i\<close> is
  \<open>eps\<^sub>i * exp (0.5 * logvar\<^sub>i) + mu\<^sub>i\<close>, \<open>eps\<^sub>i\<close> being the \<open>i\<close>-th number drawn.  Each entry is
  thus an affine image of its draw with offset \<open>mu\<^sub>i\<close> and a positive scale whose square is
  \<open>exp logvar\<^sub>i\<close>: this is what turns a standard normal draw into one of mean \<open>mu\<^sub>i\<close> and
  variance \<open>exp logvar\<^sub>i\<close>.
\<close>

theorem reparameterize_elementwise:
  assumes "shape mu = shape logvar"
    and "length (vals mu) = numel (shape mu)" and "length (vals logvar) = numel (shape logvar)"
  shows "reparameterize noise mu logvar =
       Inr \<lparr>shape = shape mu,
            vals = map (\<lambda>i. noise i * exp (0.5 * vals logvar ! i) + vals mu ! i)
                     [0..<numel (shape mu)],
            requires_grad = (requires_grad logvar \<or> requires_grad mu)\<rparr>
     \<and> (\<forall>i. 0 < exp (0.5 * vals logvar ! i)
            \<and> (exp (0.5 * vals logvar ! i))\<^sup>2 = exp (vals logvar ! i))"
proof -
  have "(exp (0.5 * v))\<^sup>2 = exp v" for v :: real
    using exp_double [of "0.5 * v"] by simp
  with reparameterize_same_shape [OF assms] show ?thesis by simp
qed

theorem reparameterize_elementwise_witness:
  "reparameterize ramp_noise t_mu t_log_var =
     Inr \<lparr>shape = [1, 2], vals = [1, 3], requires_grad = True\<rparr>"
proof -
  have "shape t_mu = shape t_log_var" "length (vals t_mu) = numel (shape t_mu)"
    "length (vals t_log_var) = numel (shape t_log_var)"
    by (simp_all add: t_mu_def t_log_var_def numel_def)
  from reparameterize_elementwise [OF this, of ramp_noise]
  show ?thesis
    by (simp add: t_mu_def t_log_var_def numel_def ramp_noise_def numeral_2_eq_2)
qed

section \<open>The loss\<close>

text \<open>
  Claim C2.  On a built model, with \<open>mu\<close> and \<open>log_var\<close> of shape \<open>[B, D]\<close> for a non-empty
  batch, a weight \<open>w\<close> under the key \<^verbatim>\<open>M_N\<close> and reconstruction and input for which
  \<^verbatim>\<open>mse_loss\<close> returns, \<open>loss_function\<close> returns a dictionary whose entry \<^verbatim>\<open>loss\<close> is the
  scalar \<open>mse_loss(recons, input) + w * kld\<close>, with \<open>kld\<close> the mean over the batch of
  \<open>-0.5\<close> times the sum over the latent dimension of \<open>1 + log_var - mu\<^sup>2 - exp log_var\<close>.
\<close>

theorem loss_is_mse_plus_weighted_kld:
  assumes "built self"
    and "shape mu = [B, D]" and "length (vals mu) = B * D"
    and "shape log_var = [B, D]" and "length (vals log_var) = B * D"
    and "0 < B"
    and "py_getitem kwargs ''M_N'' = Inr w"
    and "mse_loss recons input = Inr m"
  shows "\<exists>d loss. loss_function self [recons, input, mu, log_var] kwargs = Inr d
     \<and> py_getitem d ''loss'' = Inr loss \<and> shape loss = []
     \<and> vals loss = map (\<lambda>v. v + w * kld_spec B D (vals mu) (vals log_var)) (vals m)"
proof -
  let ?k = "kld_spec B D (vals mu) (vals log_var)"
  let ?kld = "\<lparr>shape = [], vals = [?k],
      requires_grad = (requires_grad log_var \<or> requires_grad mu)\<rparr>"
  have kld: "kld_loss mu log_var = Inr ?kld"
    using assms(2-5) by (rule kld_loss_matrix)
  from mse_loss_shape [OF assms(8)] obtain x where m: "shape m = []" "vals m = [x]"
    by (cases "vals m") auto
  have add: "tensor_add m (scalar_mul w ?kld) =
      Inr \<lparr>shape = [], vals = [x + w * ?k],
           requires_grad = (requires_grad m \<or> requires_grad log_var \<or> requires_grad mu)\<rparr>"
    unfolding tensor_add_def
    using tensor_binop_same_shape [of m "scalar_mul w ?kld" "(+)"] m
    by (simp add: scalar_mul_def tensor_map_def numel_def)
  show ?thesis
    using assms(1,7,8) kld add m
    by (simp add: loss_function_def py_index_def py_getitem_def)
qed

theorem loss_is_mse_plus_weighted_kld_witness:
  "\<exists>d loss. loss_function square_model [t_recons, t_input, t_mu, t_log_var] [(''M_N'', 2)] = Inr d
     \<and> py_getitem d ''loss'' = Inr loss \<and> shape loss = [] \<and> vals loss = [9]"
proof -
  have m: "mse_loss t_recons t_input =
      Inr \<lparr>shape = [], vals = [4], requires_grad = True\<rparr>"
    using tensor_binop_same_shape [of t_recons t_input "(-)"]
    by (simp add: mse_loss_def tensor_sub_def t_recons_def t_input_def numel_def)
  have k: "kld_spec (Suc 0) 2 (vals t_mu) (vals t_log_var) = 5 / 2"
    by (simp add: kld_spec_def t_mu_def t_log_var_def lessThan_Suc eval_nat_numeral)
  have w: "py_getitem [(''M_N'', 2 :: real)] ''M_N'' = Inr 2"
    by (simp add: py_getitem_def)
  have "shape t_mu = [1, 2]" "length (vals t_mu) = 1 * 2"
    "shape t_log_var = [1, 2]" "length (vals t_log_var) = 1 * 2" "(0::nat) < 1"
    by (simp_all add: t_mu_def t_log_var_def)
  from loss_is_mse_plus_weighted_kld [OF square_model_built this w m]
  show ?thesis by (simp add: k)
qed

text \<open>
  Claim C10.  Whenever \<open>loss_function\<close> returns, its dictionary has the three entries
  \<^verbatim>\<open>loss\<close>, \<^verbatim>\<open>Reconstruction_Loss\<close> and \<^verbatim>\<open>KLD\<close>; the entry \<^verbatim>\<open>KLD\<close> holds the negated KL
  term, so that \<^verbatim>\<open>Reconstruction_Loss\<close> plus the weight times the negation of \<^verbatim>\<open>KLD\<close> has
  the shape and the entries of \<^verbatim>\<open>loss\<close>; \<^verbatim>\<open>Reconstruction_Loss\<close> and \<^verbatim>\<open>KLD\<close> are detached
  (they never require a gradient), while \<^verbatim>\<open>loss\<close> is not: it requires a gradient as soon
  as one of the four tensors passed in does.
\<close>

theorem loss_dict_entries:
  assumes "loss_function self args kwargs = Inr d"
  shows "\<exists>loss rl k w m kld.
     d = [(''loss'', loss), (''Reconstruction_Loss'', rl), (''KLD'', k)]
     \<and> py_getitem kwargs ''M_N'' = Inr w
     \<and> mse_loss (args ! 0) (args ! 1) = Inr m \<and> shape rl = shape m \<and> vals rl = vals m
     \<and> kld_loss (args ! 2) (args ! 3) = Inr kld \<and> tensor_add m (scalar_mul w kld) = Inr loss
     \<and> shape k = shape kld \<and> vals k = map uminus (vals kld)
     \<and> (\<exists>t. tensor_add rl (scalar_mul w (tensor_neg k)) = Inr t
           \<and> shape t = shape loss \<and> vals t = vals loss)
     \<and> \<not> requires_grad rl \<and> \<not> requires_grad k
     \<and> (requires_grad loss \<longleftrightarrow>
          requires_grad (args ! 0) \<or> requires_grad (args ! 1)
          \<or> requires_grad (args ! 2) \<or> requires_grad (args ! 3))"
proof -
  from assms obtain w m kld loss where
    w: "py_getitem kwargs ''M_N'' = Inr w"
    and m: "mse_loss (args ! 0) (args ! 1) = Inr m"
    and kld: "kld_loss (args ! 2) (args ! 3) = Inr kld"
    and loss: "tensor_add m (scalar_mul w kld) = Inr loss"
    and d: "d = [(''loss'', loss), (''Reconstruction_Loss'', detach m),
              (''KLD'', tensor_neg (detach kld))]"
    by (rule loss_function_InrE)
  let ?rl = "detach m" and ?k = "tensor_neg (detach kld)"
  have neg: "shape (scalar_mul w (tensor_neg ?k)) = shape (scalar_mul w kld)"
    "vals (scalar_mul w (tensor_neg ?k)) = vals (scalar_mul w kld)"
    by (simp_all add: scalar_mul_def tensor_neg_def tensor_map_def detach_def comp_def)
  have "\<exists>t. tensor_add ?rl (scalar_mul w (tensor_neg ?k)) = Inr t
      \<and> shape t = shape loss \<and> vals t = vals loss"
    unfolding tensor_add_def
    by (rule tensor_binop_data [OF _ _ neg loss [unfolded tensor_add_def]])
      (simp_all add: detach_def)
  moreover have "requires_grad loss \<longleftrightarrow>
      requires_grad (args ! 0) \<or> requires_grad (args ! 1)
      \<or> requires_grad (args ! 2) \<or> requires_grad (args ! 3)"
    using tensor_binop_rg [OF loss [unfolded tensor_add_def]] mse_loss_rg [OF m]
      kld_loss_rg [OF kld]
    by (simp add: scalar_mul_def tensor_map_def)
  moreover have "shape ?rl = shape m" "vals ?rl = vals m" "shape ?k = shape kld"
    "vals ?k = map uminus (vals kld)" "\<not> requires_grad ?rl" "\<not> requires_grad ?k"
    by (simp_all add: detach_def tensor_neg_def tensor_map_def)
  ultimately show ?thesis
    using w m kld loss d by blast
qed

theorem loss_dict_entries_witness:
  "\<exists>loss rl k.
     loss_function square_model [t_recons, t_input, t_mu, t_log_var] [(''M_N'', 2)] =
       Inr [(''loss'', loss), (''Reconstruction_Loss'', rl), (''KLD'', k)]
     \<and> vals loss = [9] \<and> vals rl = [4] \<and> vals k = [- (5 / 2)]
     \<and> \<not> requires_grad rl \<and> \<not> requires_grad k \<and> requires_grad loss"
  using loss_dict_entries [OF example_loss] example_loss
  by simp

section \<open>Shapes through the network\<close>

lemma halve_pos: "0 < halve x"
  by (simp add: halve_def conv_out_def)

lemma halve_one: "halve (Suc 0) = Suc 0"
  by (simp add: halve_def conv_out_def)

lemma halve_double_ge: "x \<le> 2 * halve x"
  by (simp add: halve_def conv_out_def)

lemma halve_double_le: "0 < x \<Longrightarrow> 2 * halve x \<le> x + 1"
  by (simp add: halve_def conv_out_def)

lemma funpow_halve_one: "(halve ^^ L) (Suc 0) = Suc 0"
  by (induction L) (simp_all add: halve_one)

lemma funpow_halve_pos: "0 < x \<Longrightarrow> 0 < (halve ^^ L) x"
  by (induction L) (simp_all add: halve_pos)

lemma pow_halve_ge: "x \<le> 2 ^ L * (halve ^^ L) x"
proof (induction L arbitrary: x)
  case 0
  show ?case by simp
next
  case (Suc L)
  have "x \<le> 2 * halve x" by (rule halve_double_ge)
  also have "\<dots> \<le> 2 * (2 ^ L * (halve ^^ L) (halve x))"
    using Suc.IH [of "halve x"] by simp
  finally show ?case by (simp add: funpow_swap1)
qed

lemma pow_halve_le: "0 < x \<Longrightarrow> 2 ^ L * (halve ^^ L) x + 1 \<le> x + 2 ^ L"
proof (induction L arbitrary: x)
  case 0
  show ?case by simp
next
  case (Suc L)
  have "2 ^ L * (halve ^^ L) (halve x) + 1 \<le> halve x + 2 ^ L"
    using Suc.IH [of "halve x"] halve_pos by simp
  then have "2 * (2 ^ L * (halve ^^ L) (halve x)) + 2 \<le> 2 * halve x + 2 * 2 ^ L"
    by simp
  also have "\<dots> \<le> x + 1 + 2 * 2 ^ L"
    using halve_double_le [OF Suc.prems] by simp
  finally show ?case by (simp add: funpow_swap1)
qed

lemma layer_forward_shape:
  "map_sum id shape (layer_forward nv p l x) = layer_shape l (shape x)"
  by (cases "layer_shape l (shape x)")
    (auto simp: layer_forward_def tensor_map_def)

lemma Sequential_forward_shape:
  assumes "\<And>i l x. map_sum id shape (f i l x) = g l (shape x)"
  shows "map_sum id shape (Sequential_forward f i ls x) = Sequential_shape g ls (shape x)"
proof (induction ls arbitrary: i x)
  case Nil
  show ?case by simp
next
  case (Cons l ls)
  show ?case
  proof (cases "f i l x")
    case (Inl e)
    with assms [of i l x] have "g l (shape x) = Inl e" by simp
    with Inl show ?thesis by simp
  next
    case (Inr y)
    with assms [of i l x] have "g l (shape x) = Inr (shape y)" by simp
    with Inr Cons.IH [of "Suc i" y] show ?thesis by simp
  qed
qed

lemma block_forward_shape:
  "map_sum id shape (block_forward nv p ls x) = block_shape ls (shape x)"
  unfolding block_forward_def block_shape_def
  by (rule Sequential_forward_shape) (rule layer_forward_shape)

lemma blocks_forward_shape:
  "map_sum id shape (blocks_forward nv p bs x) = blocks_shape bs (shape x)"
  unfolding blocks_forward_def blocks_shape_def
  by (rule Sequential_forward_shape) (rule block_forward_shape)

lemma map_sum_shape_Inr:
  "map_sum id shape r = Inr s \<longleftrightarrow> (\<exists>t. r = Inr t \<and> shape t = s)"
  by (cases r) auto

lemma map_sum_shape_Inl:
  "map_sum id shape r = Inl e \<longleftrightarrow> r = Inl e"
  by (cases r) auto

lemma layer_forward_Inr_shape:
  "layer_shape l (shape x) = Inr s \<Longrightarrow>
     \<exists>y. layer_forward nv p l x = Inr y \<and> shape y = s"
  using layer_forward_shape [of nv p l x] by (simp add: map_sum_shape_Inr)

lemma block_forward_Inr_shape:
  "block_shape ls (shape x) = Inr s \<Longrightarrow>
     \<exists>y. block_forward nv p ls x = Inr y \<and> shape y = s"
  using block_forward_shape [of nv p ls x] by (simp add: map_sum_shape_Inr)

lemma blocks_forward_Inr_shape:
  "blocks_shape bs (shape x) = Inr s \<Longrightarrow>
     \<exists>y. blocks_forward nv p bs x = Inr y \<and> shape y = s"
  using blocks_forward_shape [of nv p bs x] by (simp add: map_sum_shape_Inr)

lemma blocks_forward_shape_of:
  "blocks_forward nv p bs x = Inr y \<Longrightarrow> blocks_shape bs (shape x) = Inr (shape y)"
  using blocks_forward_shape [of nv p bs x] by simp

lemma blocks_forward_Inl:
  "blocks_shape bs (shape x) = Inl e \<Longrightarrow> blocks_forward nv p bs x = Inl e"
  using blocks_forward_shape [of nv p bs x] by (simp add: map_sum_shape_Inl)

lemma layer_forward_wf:
  "layer_forward nv p l x = Inr y \<Longrightarrow> l \<noteq> LeakyReLU \<Longrightarrow> length (vals y) = numel (shape y)"
  by (auto simp: layer_forward_def split: sum.splits)

lemma blocks_shape_Cons:
  "blocks_shape (b # bs) s =
     (case block_shape b s of Inl e \<Rightarrow> Inl e | Inr s' \<Rightarrow> blocks_shape bs s')"
  unfolding blocks_shape_def by simp

lemma blocks_shape_Nil: "blocks_shape [] s = Inr s"
  by (simp add: blocks_shape_def)

lemma blocks_shape_Cons_Inr:
  "blocks_shape (b # bs) s = Inr s' \<longleftrightarrow>
     (\<exists>s1. block_shape b s = Inr s1 \<and> blocks_shape bs s1 = Inr s')"
  by (simp add: blocks_shape_Cons split: sum.splits)

subsection \<open>One block\<close>

lemma conv2d_shape_rank:
  "conv2d_shape ci co k st p s = Inr s1 \<Longrightarrow>
     length s1 = length s \<and> (length s = 3 \<or> length s = 4)"
  by (induction ci co k st p s rule: conv2d_shape.induct) (auto split: if_splits)

lemma batchnorm2d_shape_rank: "batchnorm2d_shape t f s = Inr s1 \<Longrightarrow> length s = 4"
  by (induction t f s rule: batchnorm2d_shape.induct) (auto split: if_splits)

lemma encoder_block_rank:
  assumes "block_shape [Conv2d ci co k st p, BatchNorm2d f t, LeakyReLU] s = Inr s'"
  shows "length s = 4"
proof -
  from assms obtain s1 s2 where "conv2d_shape ci co k st p s = Inr s1"
    "batchnorm2d_shape t f s1 = Inr s2"
    by (auto simp: block_shape_def split: sum.splits)
  then show ?thesis
    using conv2d_shape_rank [of ci co k st p s s1] batchnorm2d_shape_rank [of t f s1 s2]
    by simp
qed

lemma length_4E:
  assumes "length s = 4"
  obtains a b c d where "s = [a, b, c, d]"
  using assms by (auto simp: numeral_eq_Suc length_Suc_conv)

lemma encoder_block_shape:
  "block_shape [Conv2d ci co 3 2 (Suc 0), BatchNorm2d co t, LeakyReLU] [n, c, h, w] =
     (if c \<noteq> ci \<or> ci = 0 \<or> co = 0 \<or> h = 0 \<or> w = 0 then Inl RuntimeError
      else if t \<and> n * halve h * halve w = Suc 0 then Inl ValueError
      else Inr [n, co, halve h, halve w])"
  by (auto simp add: block_shape_def halve_def)

lemma decoder_block_shape:
  assumes "0 < h" "0 < w" "ci \<noteq> 0" "co \<noteq> 0"
  shows "block_shape [ConvTranspose2d ci co 3 2 (Suc 0) (Suc 0), BatchNorm2d co t, LeakyReLU]
       [n, ci, h, w] =
     Inr [n, co, 2 * h, 2 * w]"
proof -
  have "convT_out x 3 2 1 1 = 2 * int x" for x
    by (simp add: convT_out_def)
  moreover have "n * (2 * h) * (2 * w) \<noteq> 1"
    by simp
  ultimately show ?thesis
    using assms by (simp add: block_shape_def nat_mult_distrib)
qed

subsection \<open>The encoder\<close>

lemma encoder_modules_Cons:
  "encoder_modules cin (a # hs) = Inr bs \<longleftrightarrow>
     0 \<le> cin \<and> 0 \<le> a \<and>
     (\<exists>ms. encoder_modules a hs = Inr ms
        \<and> bs = [Conv2d (nat cin) (nat a) 3 2 1, BatchNorm2d (nat a) True, LeakyReLU] # ms)"
  by (auto simp: bind_err_eq_Inr nn_Conv2d_def nn_BatchNorm2d_def)

lemma encoder_modules_training:
  "encoder_modules cin hs = Inr bs \<Longrightarrow> map (map (set_training True)) bs = bs"
proof (induction hs arbitrary: cin bs)
  case Nil
  then show ?case by simp
next
  case (Cons a hs)
  from Cons.prems obtain ms where ms: "encoder_modules a hs = Inr ms"
    and bs: "bs = [Conv2d (nat cin) (nat a) 3 2 1, BatchNorm2d (nat a) True, LeakyReLU] # ms"
    unfolding encoder_modules_Cons by blast
  show ?case
    by (simp add: bs Cons.IH [OF ms])
qed

text \<open>
  The encoder built for positive channel counts, with its layers in mode \<open>t\<close>, on a batch.
\<close>

lemma encoder_shape:
  assumes "encoder_modules cin hs = Inr bs" and "hs \<noteq> []"
    and "0 < cin" and "\<forall>a\<in>set hs. 0 < a"
  shows "blocks_shape (map (map (set_training t)) bs) [n, c, h, w] =
     (if c \<noteq> nat cin \<or> h = 0 \<or> w = 0 then Inl RuntimeError
      else if t \<and> n * (halve ^^ length hs) h * (halve ^^ length hs) w = 1 then Inl ValueError
      else Inr [n, nat (last hs), (halve ^^ length hs) h, (halve ^^ length hs) w])"
  using assms
proof (induction hs arbitrary: cin bs c h w)
  case Nil
  then show ?case by simp
next
  case (Cons a hs)
  from Cons.prems(1) obtain ms where ms: "encoder_modules a hs = Inr ms"
    and bs: "bs = [Conv2d (nat cin) (nat a) 3 2 1, BatchNorm2d (nat a) True, LeakyReLU] # ms"
    unfolding encoder_modules_Cons by blast
  let ?b = "[Conv2d (nat cin) (nat a) 3 2 (Suc 0), BatchNorm2d (nat a) t, LeakyReLU]"
  let ?ms = "map (map (set_training t)) ms"
  from Cons.prems(3,4) have ch: "nat cin \<noteq> 0" "nat a \<noteq> 0" "0 < a" "\<forall>a\<in>set hs. 0 < a"
    by simp_all
  have bs': "blocks_shape (map (map (set_training t)) bs) [n, c, h, w] =
      (case block_shape ?b [n, c, h, w] of
         Inl e \<Rightarrow> Inl e | Inr s' \<Rightarrow> blocks_shape ?ms s')"
    unfolding bs by (simp add: blocks_shape_Cons)
  have blk: "block_shape ?b [n, c, h, w] =
     (if c \<noteq> nat cin \<or> h = 0 \<or> w = 0 then Inl RuntimeError
      else if t \<and> n * halve h * halve w = Suc 0 then Inl ValueError
      else Inr [n, nat a, halve h, halve w])"
    using ch(1,2) by (simp add: encoder_block_shape)
  show ?case
  proof (cases "hs = []")
    case True
    with ms have "ms = []" by simp
    with True show ?thesis
      unfolding bs' blk by (simp add: blocks_shape_Nil)
  next
    case False
    let ?hL = "(halve ^^ length hs) (halve h)" and ?wL = "(halve ^^ length hs) (halve w)"
    have fp: "(halve ^^ length (a # hs)) h = ?hL" "(halve ^^ length (a # hs)) w = ?wL"
      by (simp_all add: funpow_swap1)
    have lst: "last (a # hs) = last hs"
      using False by simp
    have pos: "halve h \<noteq> 0" "halve w \<noteq> 0"
      using halve_pos [of h] halve_pos [of w] by simp_all
    have IH: "blocks_shape ?ms [n, nat a, halve h, halve w] =
        (if t \<and> n * ?hL * ?wL = 1 then Inl ValueError
         else Inr [n, nat (last hs), ?hL, ?wL])"
      using Cons.IH [OF ms False ch(3,4), of "nat a" "halve h" "halve w"] pos by simp
    consider (bad) "c \<noteq> nat cin \<or> h = 0 \<or> w = 0"
      | (bn) "c = nat cin" "h \<noteq> 0" "w \<noteq> 0" "t \<and> n * halve h * halve w = Suc 0"
      | (ok) "c = nat cin" "h \<noteq> 0" "w \<noteq> 0" "\<not> (t \<and> n * halve h * halve w = Suc 0)"
      by auto
    then show ?thesis
    proof cases
      case bad
      then show ?thesis
        unfolding bs' blk fp lst by (simp only: sum.case if_True)
    next
      case bn
      from bn(4) have "n * ?hL * ?wL = 1"
        by (simp add: funpow_halve_one)
      then show ?thesis
        unfolding bs' blk fp lst using bn by simp
    next
      case ok
      then have b1: "block_shape ?b [n, c, h, w] = Inr [n, nat a, halve h, halve w]"
        unfolding blk by simp
      from ok have cond: "(c \<noteq> nat cin \<or> h = 0 \<or> w = 0) = False"
        by simp
      show ?thesis
        unfolding bs' b1 fp lst sum.case IH cond if_False by (rule refl)
    qed
  qed
qed

text \<open>A pass through the freshly built encoder that returns had a batch of four dimensions
  and met positive channel counts only.\<close>

lemma encoder_success:
  assumes "encoder_modules cin hs = Inr bs" and "hs \<noteq> []" and "blocks_shape bs s = Inr s'"
  shows "\<exists>n h w. s = [n, nat cin, h, w] \<and> 0 < cin \<and> (\<forall>a\<in>set hs. 0 < a)"
  using assms
proof (induction hs arbitrary: cin bs s)
  case Nil
  then show ?case by simp
next
  case (Cons a hs)
  from Cons.prems(1) obtain ms where ms: "encoder_modules a hs = Inr ms"
    and bs: "bs = [Conv2d (nat cin) (nat a) 3 2 (Suc 0), BatchNorm2d (nat a) True, LeakyReLU] # ms"
    unfolding encoder_modules_Cons by auto
  let ?b = "[Conv2d (nat cin) (nat a) 3 2 (Suc 0), BatchNorm2d (nat a) True, LeakyReLU]"
  from Cons.prems(3) obtain s1 where s1: "block_shape ?b s = Inr s1"
    and rest: "blocks_shape ms s1 = Inr s'"
    unfolding bs blocks_shape_Cons_Inr by blast
  from encoder_block_rank [OF s1] obtain n c h w where s: "s = [n, c, h, w]"
    by (rule length_4E)
  from s1 have c: "c = nat cin" and nz: "nat cin \<noteq> 0" "nat a \<noteq> 0"
    and s1': "s1 = [n, nat a, halve h, halve w]"
    unfolding s encoder_block_shape by (auto split: if_splits)
  have "\<forall>a\<in>set hs. 0 < a"
  proof (cases "hs = []")
    case True
    then show ?thesis by simp
  next
    case False
    from Cons.IH [OF ms False rest] show ?thesis by blast
  qed
  with s c nz show ?case by simp
qed

subsection \<open>The decoder\<close>

lemma decoder_modules_Cons2:
  "decoder_modules (a # b # hs) = Inr dms \<longleftrightarrow>
     0 \<le> a \<and> 0 \<le> b \<and>
     (\<exists>ms. decoder_modules (b # hs) = Inr ms
        \<and> dms = [ConvTranspose2d (nat a) (nat b) 3 2 1 1, BatchNorm2d (nat b) True, LeakyReLU]
            # ms)"
  by (auto simp: bind_err_eq_Inr nn_ConvTranspose2d_def nn_BatchNorm2d_def)

lemma final_modules_Inr:
  "final_modules h = Inr fl \<longleftrightarrow>
     0 \<le> h \<and> fl = [ConvTranspose2d (nat h) (nat h) 3 2 1 1, BatchNorm2d (nat h) True, LeakyReLU]"
  by (auto simp: final_modules_def bind_err_eq_Inr nn_ConvTranspose2d_def nn_BatchNorm2d_def)

lemma decoder_modules_training:
  "decoder_modules hr = Inr dms \<Longrightarrow> map (map (set_training True)) dms = dms"
proof (induction hr arbitrary: dms rule: decoder_modules.induct)
  case (1 a b hs)
  from "1.prems" obtain ms where ms: "decoder_modules (b # hs) = Inr ms"
    and dms: "dms = [ConvTranspose2d (nat a) (nat b) 3 2 1 1, BatchNorm2d (nat b) True,
        LeakyReLU] # ms"
    unfolding decoder_modules_Cons2 by auto
  show ?case
    by (simp add: dms "1.IH" [OF ms])
qed simp_all

lemma final_modules_training:
  "final_modules h = Inr fl \<Longrightarrow> map (set_training True) fl = fl"
  by (auto simp: final_modules_Inr)

lemma decoder_shape:
  assumes "decoder_modules hr = Inr dms" and "hr \<noteq> []" and "0 < h" and "0 < w"
    and "\<forall>a\<in>set hr. 0 < a"
  shows "blocks_shape (map (map (set_training t)) dms) [n, nat (hd hr), h, w] =
     Inr [n, nat (last hr), 2 ^ (length hr - 1) * h, 2 ^ (length hr - 1) * w]"
  using assms
proof (induction hr arbitrary: dms h w rule: decoder_modules.induct)
  case (1 a b hs)
  from "1.prems"(1) obtain ms where ms: "decoder_modules (b # hs) = Inr ms"
    and dms: "dms = [ConvTranspose2d (nat a) (nat b) 3 2 (Suc 0) (Suc 0),
        BatchNorm2d (nat b) True, LeakyReLU] # ms"
    unfolding decoder_modules_Cons2 by auto
  from "1.prems"(5) have nz: "nat a \<noteq> 0" "nat b \<noteq> 0"
    by simp_all
  have "blocks_shape (map (map (set_training t)) ms) [n, nat (hd (b # hs)), 2 * h, 2 * w] =
      Inr [n, nat (last (b # hs)), 2 ^ (length (b # hs) - 1) * (2 * h),
        2 ^ (length (b # hs) - 1) * (2 * w)]"
    using "1.prems"(3,4,5) by (intro "1.IH" [OF ms]) simp_all
  then show ?case
    using "1.prems"(3,4) nz
    by (simp add: dms blocks_shape_Cons decoder_block_shape)
qed (simp_all add: blocks_shape_Nil)

lemma final_block_shape:
  assumes "final_modules c = Inr fl" and "0 < h" and "0 < w" and "0 < c"
  shows "block_shape (map (set_training t) fl) [n, nat c, h, w] = Inr [n, nat c, 2 * h, 2 * w]"
  using assms decoder_block_shape [of h w "nat c" "nat c" t n]
  by (simp add: final_modules_Inr)

lemma py_int_of_int: "py_int (of_int k) = k"
  by (simp add: py_int_def)

lemma output_kernel_eq: "output_kernel r c = int c - int r + 3"
proof -
  have "- real_of_int ((int r - 1) * 1 + 1 - 2 * 1 - int c) / 1 + 1 =
      real_of_int (int c - int r + 3)"
    by simp
  then show ?thesis
    unfolding output_kernel_def by (simp only: py_int_of_int)
qed

lemma py_last_Inr: "py_last xs = Inr x \<longleftrightarrow> xs \<noteq> [] \<and> x = last xs"
  by (auto simp: py_last_def)

lemma nn_Linear_Inr:
  "nn_Linear a b = Inr l \<longleftrightarrow> 0 \<le> a \<and> 0 \<le> b \<and> l = Linear (nat a) (nat b)"
  by (auto simp: nn_Linear_def)

lemma nn_Conv2d_Inr:
  "nn_Conv2d a b k s p = Inr l \<longleftrightarrow>
     0 \<le> a \<and> 0 \<le> b \<and> 0 \<le> k \<and> l = Conv2d (nat a) (nat b) (nat k) s p"
  by (auto simp: nn_Conv2d_def)

text \<open>The decoder stack, its layers in mode \<open>t\<close>, on a batch of latent vectors.\<close>

lemma decoder_stack_shape:
  assumes dms: "decoder_modules hr = Inr dms" and hr: "hr \<noteq> []"
    and fl: "final_modules (last hr) = Inr fl"
    and z: "shape z = [B, fin]"
    and ch: "\<forall>a\<in>set hr. 0 < a" and pos: "0 < h" "0 < w"
  shows "\<exists>r. decoder_stack nv (Linear fin (prod_list [nat (hd hr), h, w]))
                [nat (hd hr), h, w] (map (map (set_training t)) dms)
                (map (set_training t) fl) z = Inr r
     \<and> shape r = [B, nat (last hr), 2 ^ length hr * h, 2 ^ length hr * w]"
proof -
  let ?c = "nat (hd hr)"
  let ?p = "prod_list [?c, h, w]"
  let ?dms = "map (map (set_training t)) dms" and ?fl = "map (set_training t) fl"
  from hr ch have c: "0 < hd hr" "0 < last hr"
    by simp_all
  have p: "0 < ?p" using pos c by simp
  have "layer_shape (Linear fin ?p) (shape z) = Inr [B, ?p]"
    by (simp add: z linear_shape_def)
  then obtain r1 where r1: "layer_forward nv Decoder_input (Linear fin ?p) z = Inr r1"
    "shape r1 = [B, ?p]"
    using layer_forward_Inr_shape by blast
  have "numel (shape r1) = B * ?p" by (simp add: r1(2) numel_def)
  then have r2: "view_rows r1 [?c, h, w] = Inr (r1\<lparr>shape := [B, ?c, h, w]\<rparr>)"
    using p by (simp add: view_rows_def)
  have "blocks_shape ?dms (shape (r1\<lparr>shape := [B, ?c, h, w]\<rparr>)) =
      Inr [B, nat (last hr), 2 ^ (length hr - 1) * h, 2 ^ (length hr - 1) * w]"
    using decoder_shape [OF dms hr pos ch] by simp
  then obtain r3 where r3: "blocks_forward nv Decoder ?dms (r1\<lparr>shape := [B, ?c, h, w]\<rparr>) = Inr r3"
    "shape r3 = [B, nat (last hr), 2 ^ (length hr - 1) * h, 2 ^ (length hr - 1) * w]"
    using blocks_forward_Inr_shape by blast
  have pw: "2 * 2 ^ (length hr - Suc 0) = (2::nat) ^ length hr"
    using hr by (cases hr) simp_all
  have "block_shape ?fl (shape r3) =
      Inr [B, nat (last hr), 2 * (2 ^ (length hr - 1) * h), 2 * (2 ^ (length hr - 1) * w)]"
    unfolding r3(2) using pos c(2) by (intro final_block_shape [OF fl]) simp_all
  then have "block_shape ?fl (shape r3) =
      Inr [B, nat (last hr), 2 ^ length hr * h, 2 ^ length hr * w]"
    by (simp add: pw flip: mult.assoc)
  then obtain r4 where r4: "block_forward nv Final_layer ?fl r3 = Inr r4"
    "shape r4 = [B, nat (last hr), 2 ^ length hr * h, 2 ^ length hr * w]"
    using block_forward_Inr_shape by blast
  show ?thesis
    using r1 r2 r3 r4 by (simp add: decoder_stack_def)
qed

lemma torch_flatten_4d:
  "shape t = [n, c, h, w] \<Longrightarrow> torch_flatten t = Inr (t\<lparr>shape := [n, prod_list [c, h, w]]\<rparr>)"
  by (simp add: torch_flatten_def)

lemma getattr_Some [simp]: "getattr (Some v) name = Inr v"
  by (simp add: getattr_def)

subsection \<open>The layers a successful build has made\<close>

lemma build_layers_4d:
  assumes b: "build_layers nv self0 d = (self, Inr ())"
  obtains N0 H W where "shape d = [N0, nat (in_channels self0), H, W]"
proof -
  from b obtain modules enc_res h_last
    where modules: "encoder_modules (in_channels self0) (hidden_dims self0) = Inr modules"
      and enc: "blocks_forward nv Encoder modules d = Inr enc_res"
      and h_last: "py_last (rev (hidden_dims self0)) = Inr h_last"
    by (rule build_layers_InrE)
  from h_last have hs: "hidden_dims self0 \<noteq> []"
    by (simp add: py_last_Inr)
  from encoder_success [OF modules hs blocks_forward_shape_of [OF enc]] that
  show ?thesis by blast
qed

lemma build_shapeE:
  assumes b: "build_layers nv self0 d = (self, Inr ())" and d: "shape d = [N0, C0, H, W]"
  obtains modules dms fl where
    "hidden_dims self0 \<noteq> []"
    and "C0 = nat (in_channels self0)" and "0 < in_channels self0"
    and "0 < H" and "0 < W" and "0 \<le> latent_dim self0"
    and "\<forall>a\<in>set (hidden_dims self0). 0 < a"
    and "N0 * (halve ^^ length (hidden_dims self0)) H
              * (halve ^^ length (hidden_dims self0)) W \<noteq> 1"
    and "encoder_modules (in_channels self0) (hidden_dims self0) = Inr modules"
    and "decoder_modules (rev (hidden_dims self0)) = Inr dms"
    and "final_modules (hd (hidden_dims self0)) = Inr fl"
    and "self = self0\<lparr>encoder := Some modules,
           encoder_result_shape := Some [nat (last (hidden_dims self0)),
             (halve ^^ length (hidden_dims self0)) H, (halve ^^ length (hidden_dims self0)) W],
           fc_mu := Some (Linear (prod_list [nat (last (hidden_dims self0)),
             (halve ^^ length (hidden_dims self0)) H, (halve ^^ length (hidden_dims self0)) W])
             (nat (latent_dim self0))),
           fc_var := Some (Linear (prod_list [nat (last (hidden_dims self0)),
             (halve ^^ length (hidden_dims self0)) H, (halve ^^ length (hidden_dims self0)) W])
             (nat (latent_dim self0))),
           decoder_input := Some (Linear (nat (latent_dim self0))
             (prod_list [nat (last (hidden_dims self0)),
             (halve ^^ length (hidden_dims self0)) H, (halve ^^ length (hidden_dims self0)) W])),
           decoder := Some dms, final_layer := Some fl,
           output_layer := Some (Conv2d (nat (hd (hidden_dims self0))) (nat (in_channels self0))
             (2 ^ length (hidden_dims self0) * (halve ^^ length (hidden_dims self0)) W + 3 - W)
             1 1),
           built := True\<rparr>"
proof -
  let ?hs = "hidden_dims self0"
  let ?L = "length ?hs"
  let ?hL = "(halve ^^ ?L) H" and ?wL = "(halve ^^ ?L) W"
  let ?c = "nat (last ?hs)"
  let ?ers = "[?c, ?hL, ?wL]"
  from b obtain modules enc_res fm fv flat dummy_mu di dms h_last fl ddr required_dim
    current_dim ol
    where modules: "encoder_modules (in_channels self0) ?hs = Inr modules"
      and enc: "blocks_forward nv Encoder modules d = Inr enc_res"
      and fm: "nn_Linear (int (prod_list (drop 1 (shape enc_res)))) (latent_dim self0) = Inr fm"
      and fv: "nn_Linear (int (prod_list (drop 1 (shape enc_res)))) (latent_dim self0) = Inr fv"
      and flat: "torch_flatten enc_res = Inr flat"
      and dummy_mu: "layer_forward nv Fc_mu fm flat = Inr dummy_mu"
      and di: "nn_Linear (latent_dim self0) (int (prod_list (drop 1 (shape enc_res)))) = Inr di"
      and dms: "decoder_modules (rev ?hs) = Inr dms"
      and h_last: "py_last (rev ?hs) = Inr h_last"
      and fl: "final_modules h_last = Inr fl"
      and ddr: "decoder_stack nv di (drop 1 (shape enc_res)) dms fl dummy_mu = Inr ddr"
      and req: "py_last (shape d) = Inr required_dim"
      and cur: "py_last (shape ddr) = Inr current_dim"
      and ol: "nn_Conv2d h_last (in_channels self0) (output_kernel required_dim current_dim) 1 1
          = Inr ol"
      and self: "self = self0\<lparr>encoder := Some modules,
           encoder_result_shape := Some (drop 1 (shape enc_res)),
           fc_mu := Some fm, fc_var := Some fv, decoder_input := Some di,
           decoder := Some dms, final_layer := Some fl, output_layer := Some ol,
           built := True\<rparr>"
    by (rule build_layers_InrE)
  from h_last have hs: "?hs \<noteq> []" and hl: "h_last = hd ?hs"
    by (simp_all add: py_last_Inr last_rev)
  have es: "blocks_shape modules [N0, C0, H, W] = Inr (shape enc_res)"
    using blocks_forward_shape_of [OF enc] d by simp
  from encoder_success [OF modules hs es]
  have C0: "C0 = nat (in_channels self0)" and cin: "0 < in_channels self0"
    and ch: "\<forall>a\<in>set ?hs. 0 < a"
    by auto
  have "blocks_shape (map (map (set_training True)) modules) [N0, C0, H, W] =
     (if C0 \<noteq> nat (in_channels self0) \<or> H = 0 \<or> W = 0 then Inl RuntimeError
      else if True \<and> N0 * ?hL * ?wL = 1 then Inl ValueError
      else Inr [N0, ?c, ?hL, ?wL])"
    by (rule encoder_shape [OF modules hs cin ch])
  with es have H: "0 < H" and W: "0 < W"
    and bn: "N0 * ?hL * ?wL \<noteq> 1"
    and enc_shape: "shape enc_res = [N0, ?c, ?hL, ?wL]"
    unfolding encoder_modules_training [OF modules] by (auto split: if_splits)
  have ers: "drop 1 (shape enc_res) = ?ers"
    by (simp add: enc_shape)
  from fm have lat: "0 \<le> latent_dim self0"
    and fm': "fm = Linear (prod_list ?ers) (nat (latent_dim self0))"
    unfolding ers nn_Linear_Inr nat_int by blast+
  from fv have fv': "fv = Linear (prod_list ?ers) (nat (latent_dim self0))"
    unfolding ers nn_Linear_Inr nat_int by blast
  from di have di': "di = Linear (nat (latent_dim self0)) (prod_list ?ers)"
    unfolding ers nn_Linear_Inr nat_int by blast
  have "shape flat = [N0, prod_list ?ers]"
    using flat torch_flatten_4d [OF enc_shape] by auto
  then have "layer_shape fm (shape flat) = Inr [N0, nat (latent_dim self0)]"
    by (simp add: fm' linear_shape_def)
  with dummy_mu layer_forward_shape [of nv Fc_mu fm flat]
  have mu_shape: "shape dummy_mu = [N0, nat (latent_dim self0)]"
    by simp
  have pos: "0 < ?hL" "0 < ?wL"
    using H W by (simp_all add: funpow_halve_pos)
  have "\<exists>r. decoder_stack nv (Linear (nat (latent_dim self0))
        (prod_list [nat (hd (rev ?hs)), ?hL, ?wL])) [nat (hd (rev ?hs)), ?hL, ?wL]
        (map (map (set_training True)) dms) (map (set_training True) fl) dummy_mu = Inr r
      \<and> shape r = [N0, nat (last (rev ?hs)), 2 ^ length (rev ?hs) * ?hL,
          2 ^ length (rev ?hs) * ?wL]"
    using hs ch fl pos
    by (intro decoder_stack_shape [OF dms _ _ mu_shape]) (simp_all add: hd_rev last_rev hl)
  then have ddr_shape: "shape ddr = [N0, nat (hd ?hs), 2 ^ ?L * ?hL, 2 ^ ?L * ?wL]"
    using ddr hs unfolding ers di'
    by (simp add: hd_rev last_rev decoder_modules_training [OF dms]
        final_modules_training [OF fl])
  from req d have rd: "required_dim = W"
    by (simp add: py_last_Inr)
  from cur have cd: "current_dim = 2 ^ ?L * ?wL"
    by (simp add: py_last_Inr ddr_shape)
  have "nat (int a - int b + 3) = a + 3 - b" for a b :: nat
    by linarith
  then have k: "nat (output_kernel required_dim current_dim) = 2 ^ ?L * ?wL + 3 - W"
    unfolding output_kernel_eq rd cd by blast
  from ol have ol': "ol = Conv2d (nat (hd ?hs)) (nat (in_channels self0))
      (2 ^ ?L * ?wL + 3 - W) 1 1"
    unfolding nn_Conv2d_Inr k [symmetric] hl by simp
  show ?thesis
    using hs C0 cin H W lat ch bn modules dms fl [unfolded hl]
      self [unfolded ers fm' fv' di' ol']
    by (rule that)
qed

text \<open>
  The attributes of a model \<open>m\<close> that \<open>build\<close> has made, either as \<open>build\<close> left it, its
  layers in training mode, or after \<open>train\<close> has put the layers in mode \<open>t\<close>.
\<close>

lemma built_model_fields:
  assumes b: "build_layers nv self0 d = (self, Inr ())" and d: "shape d = [N0, C0, H, W]"
    and m: "m = self \<and> t \<or> m = train t self"
  obtains modules dms fl where
    "hidden_dims self0 \<noteq> []"
    and "0 < H" and "0 < W"
    and "0 < in_channels self0" and "0 \<le> latent_dim self0"
    and "\<forall>a\<in>set (hidden_dims self0). 0 < a"
    and "encoder_modules (in_channels self0) (hidden_dims self0) = Inr modules"
    and "decoder_modules (rev (hidden_dims self0)) = Inr dms"
    and "final_modules (hd (hidden_dims self0)) = Inr fl"
    and "built m" and "in_channels m = in_channels self0"
    and "latent_dim m = latent_dim self0" and "hidden_dims m = hidden_dims self0"
    and "encoder m = Some (map (map (set_training t)) modules)"
    and "encoder_result_shape m = Some [nat (last (hidden_dims self0)),
             (halve ^^ length (hidden_dims self0)) H, (halve ^^ length (hidden_dims self0)) W]"
    and "fc_mu m = Some (Linear (prod_list [nat (last (hidden_dims self0)),
             (halve ^^ length (hidden_dims self0)) H, (halve ^^ length (hidden_dims self0)) W])
             (nat (latent_dim self0)))"
    and "fc_var m = Some (Linear (prod_list [nat (last (hidden_dims self0)),
             (halve ^^ length (hidden_dims self0)) H, (halve ^^ length (hidden_dims self0)) W])
             (nat (latent_dim self0)))"
    and "decoder_input m = Some (Linear (nat (latent_dim self0))
             (prod_list [nat (last (hidden_dims self0)),
             (halve ^^ length (hidden_dims self0)) H, (halve ^^ length (hidden_dims self0)) W]))"
    and "decoder m = Some (map (map (set_training t)) dms)"
    and "final_layer m = Some (map (set_training t) fl)"
    and "output_layer m = Some (Conv2d (nat (hd (hidden_dims self0))) (nat (in_channels self0))
             (2 ^ length (hidden_dims self0) * (halve ^^ length (hidden_dims self0)) W + 3 - W)
             1 1)"
proof -
  let ?hs = "hidden_dims self0"
  let ?L = "length ?hs"
  let ?hL = "(halve ^^ ?L) H" and ?wL = "(halve ^^ ?L) W"
  let ?ers = "[nat (last ?hs), ?hL, ?wL]"
  let ?fc = "Linear (prod_list ?ers) (nat (latent_dim self0))"
  let ?di = "Linear (nat (latent_dim self0)) (prod_list ?ers)"
  let ?ol = "Conv2d (nat (hd ?hs)) (nat (in_channels self0)) (2 ^ ?L * ?wL + 3 - W) 1 1"
  from b d obtain modules dms fl where hs: "?hs \<noteq> []"
    and H: "0 < H" and W: "0 < W" and cin: "0 < in_channels self0"
    and lat: "0 \<le> latent_dim self0" and ch: "\<forall>a\<in>set ?hs. 0 < a"
    and modules: "encoder_modules (in_channels self0) ?hs = Inr modules"
    and dms: "decoder_modules (rev ?hs) = Inr dms"
    and fl: "final_modules (hd ?hs) = Inr fl"
    and self: "self = self0\<lparr>encoder := Some modules,
           encoder_result_shape := Some ?ers,
           fc_mu := Some ?fc, fc_var := Some ?fc,
           decoder_input := Some ?di,
           decoder := Some dms, final_layer := Some fl,
           output_layer := Some ?ol,
           built := True\<rparr>"
    by (rule build_shapeE)
  note tr = encoder_modules_training [OF modules] decoder_modules_training [OF dms]
    final_modules_training [OF fl]
  have f1: "built m" "in_channels m = in_channels self0"
    "latent_dim m = latent_dim self0" "hidden_dims m = ?hs"
    using m unfolding self by (auto simp: train_def)
  have f2: "encoder m = Some (map (map (set_training t)) modules)"
    "decoder m = Some (map (map (set_training t)) dms)"
    "final_layer m = Some (map (set_training t) fl)"
    using m unfolding self by (auto simp: train_def tr)
  have f3: "encoder_result_shape m = Some ?ers" "fc_mu m = Some ?fc" "fc_var m = Some ?fc"
    "decoder_input m = Some ?di" "output_layer m = Some ?ol"
    using m unfolding self by (auto simp: train_def)
  show ?thesis
    using hs H W cin lat ch modules dms fl f1 f2(1) f3(1,2,3,4) f2(2,3) f3(5)
    by (rule that)
qed

subsection \<open>encode, decode and sample on a built model\<close>

lemma encode_shape_after_build:
  assumes b: "build_layers nv self0 d = (self, Inr ())" and d: "shape d = [N0, C0, H, W]"
    and m: "m = self \<and> t \<or> m = train t self"
    and x: "shape x = [N, nat (in_channels m), H, W]"
    and ers: "encoder_result_shape m = Some [c, h, w]"
  shows "(t \<and> N * h * w = 1 \<longrightarrow> encode nv m x = Inl ValueError)
     \<and> (\<not> (t \<and> N * h * w = 1) \<longrightarrow>
          (\<exists>enc fm fv enc_out flat mu log_var.
             encoder m = Some enc \<and> fc_mu m = Some fm \<and> fc_var m = Some fv
             \<and> blocks_forward nv Encoder enc x = Inr enc_out
             \<and> torch_flatten enc_out = Inr flat
             \<and> layer_forward nv Fc_mu fm flat = Inr mu
             \<and> layer_forward nv Fc_var fv flat = Inr log_var
             \<and> encode nv m x = Inr [mu, log_var]
             \<and> shape mu = [N, nat (latent_dim m)]
             \<and> shape log_var = [N, nat (latent_dim m)]
             \<and> length (vals mu) = numel (shape mu)
             \<and> length (vals log_var) = numel (shape log_var)))"
proof -
  let ?hs = "hidden_dims self0"
  let ?L = "length ?hs"
  let ?hL = "(halve ^^ ?L) H" and ?wL = "(halve ^^ ?L) W"
  let ?c = "nat (last ?hs)"
  let ?fc = "Linear (prod_list [?c, ?hL, ?wL]) (nat (latent_dim self0))"
  from b d m obtain modules where hs: "?hs \<noteq> []"
    and H: "0 < H" and W: "0 < W"
    and cin: "0 < in_channels self0" and ch: "\<forall>a\<in>set ?hs. 0 < a"
    and modules: "encoder_modules (in_channels self0) ?hs = Inr modules"
    and fields: "built m" "in_channels m = in_channels self0" "latent_dim m = latent_dim self0"
      "encoder m = Some (map (map (set_training t)) modules)"
      "encoder_result_shape m = Some [?c, ?hL, ?wL]"
      "fc_mu m = Some ?fc" "fc_var m = Some ?fc"
    by (rule built_model_fields)
  let ?enc = "map (map (set_training t)) modules"
  from ers fields(5) have chw: "c = ?c" "h = ?hL" "w = ?wL"
    by simp_all
  have x': "shape x = [N, nat (in_channels self0), H, W]"
    using x fields(2) by simp
  have es: "blocks_shape ?enc (shape x) =
      (if t \<and> N * h * w = 1 then Inl ValueError else Inr [N, ?c, ?hL, ?wL])"
    unfolding x' chw encoder_shape [OF modules hs cin ch] using H W by simp
  show ?thesis
  proof (cases "t \<and> N * h * w = 1")
    case True
    with es have "blocks_forward nv Encoder ?enc x = Inl ValueError"
      by (intro blocks_forward_Inl) simp
    with True fields show ?thesis
      by (simp add: encode_def)
  next
    case False
    with es have "blocks_shape ?enc (shape x) = Inr [N, ?c, ?hL, ?wL]"
      by simp
    then obtain enc_out where enc_out: "blocks_forward nv Encoder ?enc x = Inr enc_out"
      "shape enc_out = [N, ?c, ?hL, ?wL]"
      using blocks_forward_Inr_shape by blast
    let ?flat = "enc_out\<lparr>shape := [N, prod_list [?c, ?hL, ?wL]]\<rparr>"
    have flat: "torch_flatten enc_out = Inr ?flat"
      by (rule torch_flatten_4d [OF enc_out(2)])
    have ls: "layer_shape ?fc (shape ?flat) = Inr [N, nat (latent_dim self0)]"
      by (simp add: linear_shape_def)
    obtain mu where mu: "layer_forward nv Fc_mu ?fc ?flat = Inr mu"
      "shape mu = [N, nat (latent_dim self0)]"
      using layer_forward_Inr_shape [OF ls] by blast
    obtain lv where lv: "layer_forward nv Fc_var ?fc ?flat = Inr lv"
      "shape lv = [N, nat (latent_dim self0)]"
      using layer_forward_Inr_shape [OF ls] by blast
    have wf: "length (vals mu) = numel (shape mu)" "length (vals lv) = numel (shape lv)"
      using layer_forward_wf [OF mu(1)] layer_forward_wf [OF lv(1)] by simp_all
    have e: "encode nv m x = Inr [mu, lv]"
      using fields enc_out(1) flat mu(1) lv(1) by (simp add: encode_def)
    have "\<exists>enc fm fv enc_out flat mu log_var.
             encoder m = Some enc \<and> fc_mu m = Some fm \<and> fc_var m = Some fv
             \<and> blocks_forward nv Encoder enc x = Inr enc_out
             \<and> torch_flatten enc_out = Inr flat
             \<and> layer_forward nv Fc_mu fm flat = Inr mu
             \<and> layer_forward nv Fc_var fv flat = Inr log_var
             \<and> encode nv m x = Inr [mu, log_var]
             \<and> shape mu = [N, nat (latent_dim m)]
             \<and> shape log_var = [N, nat (latent_dim m)]
             \<and> length (vals mu) = numel (shape mu)
             \<and> length (vals log_var) = numel (shape log_var)"
      unfolding fields(3)
      using fields(4,6,7) enc_out(1) flat mu lv wf e by blast
    with False show ?thesis by blast
  qed
qed

lemma conv_out_stride1:
  assumes "a + 1 \<le> W + p" and "p \<le> x" and "W \<le> a"
  shows "conv_out x (a + 3 - W) 1 1 = x + W - a"
  using assms by (simp add: conv_out_def)

lemma conv_out_stride1_same:
  assumes "W \<le> a" and "0 < W"
  shows "conv_out a (a + 3 - W) 1 1 = W"
  using assms by (simp add: conv_out_def)

lemma kernel_fits:
  assumes "a + 1 \<le> W + p" and "p \<le> x"
  shows "\<not> x + 2 * 1 < a + 3 - (W::nat)"
  using assms by simp

lemma decode_after_build:
  assumes b: "build_layers nv self0 d = (self, Inr ())" and d: "shape d = [N0, C0, H, W]"
    and m: "m = self \<and> t \<or> m = train t self"
    and z: "shape z = [B, nat (latent_dim m)]"
  shows "\<exists>r. decode nv m z = Inr r
     \<and> shape r = [B, nat (in_channels m),
          2 ^ length (hidden_dims m) * (halve ^^ length (hidden_dims m)) H + W
            - 2 ^ length (hidden_dims m) * (halve ^^ length (hidden_dims m)) W,
          W]"
proof -
  let ?hs = "hidden_dims self0"
  let ?L = "length ?hs"
  let ?hL = "(halve ^^ ?L) H" and ?wL = "(halve ^^ ?L) W"
  let ?c = "nat (last ?hs)"
  let ?ers = "[?c, ?hL, ?wL]"
  let ?di = "Linear (nat (latent_dim self0)) (prod_list ?ers)"
  let ?k = "2 ^ ?L * ?wL + 3 - W"
  let ?ol = "Conv2d (nat (hd ?hs)) (nat (in_channels self0)) ?k 1 1"
  from b d m obtain modules dms fl where hs: "?hs \<noteq> []"
    and H: "0 < H" and W: "0 < W"
    and cin: "0 < in_channels self0" and ch: "\<forall>a\<in>set ?hs. 0 < a"
    and dms: "decoder_modules (rev ?hs) = Inr dms"
    and fl: "final_modules (hd ?hs) = Inr fl"
    and fields: "built m" "in_channels m = in_channels self0" "latent_dim m = latent_dim self0"
      "hidden_dims m = ?hs"
      "encoder_result_shape m = Some ?ers" "decoder_input m = Some ?di"
      "decoder m = Some (map (map (set_training t)) dms)"
      "final_layer m = Some (map (set_training t) fl)" "output_layer m = Some ?ol"
    by (rule built_model_fields)
  let ?dms = "map (map (set_training t)) dms" and ?fl = "map (set_training t) fl"
  have pos: "0 < ?hL" "0 < ?wL"
    using H W by (simp_all add: funpow_halve_pos)
  have z': "shape z = [B, nat (latent_dim self0)]"
    using z fields(3) by simp
  have "\<exists>r. decoder_stack nv (Linear (nat (latent_dim self0))
        (prod_list [nat (hd (rev ?hs)), ?hL, ?wL])) [nat (hd (rev ?hs)), ?hL, ?wL] ?dms ?fl z
          = Inr r
      \<and> shape r = [B, nat (last (rev ?hs)), 2 ^ length (rev ?hs) * ?hL,
          2 ^ length (rev ?hs) * ?wL]"
    using hs ch fl pos
    by (intro decoder_stack_shape [OF dms _ _ z']) (simp_all add: hd_rev last_rev)
  then obtain r4 where r4: "decoder_stack nv ?di ?ers ?dms ?fl z = Inr r4"
    "shape r4 = [B, nat (hd ?hs), 2 ^ ?L * ?hL, 2 ^ ?L * ?wL]"
    using hs by (auto simp: hd_rev last_rev)
  from hs have "hd ?hs \<in> set ?hs"
    by simp
  with ch have "0 < hd ?hs"
    by blast
  with cin have nz: "nat (hd ?hs) \<noteq> 0" "nat (in_channels self0) \<noteq> 0"
    by simp_all
  have ge_w: "W \<le> 2 ^ ?L * ?wL"
    by (rule pow_halve_ge)
  have le_w: "2 ^ ?L * ?wL + 1 \<le> W + 2 ^ ?L"
    by (rule pow_halve_le [OF W])
  have "2 ^ ?L * 1 \<le> 2 ^ ?L * ?hL"
    using pos(1) by (intro mult_le_mono2) simp
  then have ge_h: "2 ^ ?L \<le> 2 ^ ?L * ?hL" by simp
  have k_pos: "?k \<noteq> 0" using ge_w by simp
  have k_h: "\<not> 2 ^ ?L * ?hL + 2 * 1 < ?k"
    by (rule kernel_fits [OF le_w ge_h])
  have k_w: "\<not> 2 ^ ?L * ?wL + 2 * 1 < ?k" using W by simp
  have out_h: "conv_out (2 ^ ?L * ?hL) ?k 1 1 = 2 ^ ?L * ?hL + W - 2 ^ ?L * ?wL"
    by (rule conv_out_stride1 [OF le_w ge_h ge_w])
  have out_w: "conv_out (2 ^ ?L * ?wL) ?k 1 1 = W"
    by (rule conv_out_stride1_same [OF ge_w W])
  have "layer_shape ?ol (shape r4) =
      Inr [B, nat (in_channels self0), 2 ^ ?L * ?hL + W - 2 ^ ?L * ?wL, W]"
    unfolding r4(2) layer_shape.simps conv2d_shape.simps
    using k_pos k_h k_w out_h out_w nz by simp
  then obtain r where r: "layer_forward nv Output_layer ?ol r4 = Inr r"
    "shape r = [B, nat (in_channels self0), 2 ^ ?L * ?hL + W - 2 ^ ?L * ?wL, W]"
    using layer_forward_Inr_shape by blast
  from r4(1) obtain r1 r2 r3 where
    "layer_forward nv Decoder_input ?di z = Inr r1" "view_rows r1 ?ers = Inr r2"
    "blocks_forward nv Decoder ?dms r2 = Inr r3" "block_forward nv Final_layer ?fl r3 = Inr r4"
    unfolding decoder_stack_def bind_err_eq_Inr by blast
  then have "decode nv m z = Inr r"
    using fields r(1) by (simp add: decode_def)
  with r(2) fields show ?thesis by simp
qed

lemma decode_square_build:
  assumes "build_layers nv self0 d = (self, Inr ())" and "shape d = [N0, C0, H, H]"
    and "m = self \<and> t \<or> m = train t self"
    and "shape z = [B, nat (latent_dim m)]"
  shows "\<exists>r. decode nv m z = Inr r \<and> shape r = [B, nat (in_channels m), H, H]"
  using decode_after_build [OF assms] by simp

text \<open>\<open>sample\<close> on the device the model was built on.\<close>

lemma sample_after_build:
  assumes b: "build nv mc self0 d dev = (self, Inr ())" and d: "shape d = [N0, C0, H, W]"
    and m: "m = self \<and> t \<or> m = train t self"
    and n: "0 \<le> num_samples"
  shows "\<exists>r. sample nv noise mc m num_samples dev = Inr r
     \<and> shape r = [nat num_samples, nat (in_channels m),
          2 ^ length (hidden_dims m) * (halve ^^ length (hidden_dims m)) H + W
            - 2 ^ length (hidden_dims m) * (halve ^^ length (hidden_dims m)) W,
          W]"
proof -
  note bl = build_Inr_layers [OF b]
  from b have "snd (build nv mc self0 d dev) = Inr ()"
    by simp
  then have dev: "mc dev = None"
    by (simp add: build_snd_Inr)
  from bl d m have lat: "0 \<le> latent_dim m"
    by (rule built_model_fields) simp
  let ?z = "\<lparr>shape = [nat num_samples, nat (latent_dim m)],
      vals = map noise [0..<nat num_samples * nat (latent_dim m)], requires_grad = False\<rparr>"
  have "randn noise [num_samples, latent_dim m] = Inr ?z"
    using n lat by (simp add: randn_def numel_def)
  moreover have "tensor_to mc ?z dev = Inr ?z"
    using dev by (simp add: tensor_to_def)
  moreover have "shape ?z = [nat num_samples, nat (latent_dim m)]" by simp
  from decode_after_build [OF bl d m this] obtain r where
    "decode nv m ?z = Inr r"
    "shape r = [nat num_samples, nat (in_channels m),
          2 ^ length (hidden_dims m) * (halve ^^ length (hidden_dims m)) H + W
            - 2 ^ length (hidden_dims m) * (halve ^^ length (hidden_dims m)) W,
          W]" by blast
  ultimately show ?thesis
    by (simp add: sample_def)
qed

lemma build_square_model:
  "build zero_numerics cpu_only (init 1 2 (Some [8])) (zeros [2, 1, 2, 2]) cpu =
     (square_model, Inr ())"
  unfolding square_model_def build_square by simp

lemma square_model_eq:
  "square_model =
     \<lparr>latent_dim = 2, hidden_dims = [8], in_channels = 1, built = True, training = True,
       encoder = Some [[Conv2d 1 8 3 2 1, BatchNorm2d 8 True, LeakyReLU]],
       encoder_result_shape = Some [8, 1, 1], fc_mu = Some (Linear 8 2),
       fc_var = Some (Linear 8 2), decoder_input = Some (Linear 2 8), decoder = Some [],
       final_layer = Some [ConvTranspose2d 8 8 3 2 1 1, BatchNorm2d 8 True, LeakyReLU],
       output_layer = Some (Conv2d 8 1 3 1 1)\<rparr>"
  unfolding square_model_def build_square by simp

lemma build_oblong_model:
  "build zero_numerics cpu_only (init 1 2 (Some [8])) (zeros [2, 1, 5, 4]) cpu =
     (oblong_model, Inr ())"
  unfolding oblong_model_def build_oblong by simp

section \<open>The life cycle of the built flag\<close>

text \<open>
  Claim C8.  \<open>__init__\<close> leaves \<open>built\<close> False and assigns none of the layers, taking
  \<open>[32, 64, 128, 256, 512]\<close> for the hidden dimensions when none are given.  \<open>build\<close> sets
  \<open>built\<close> in line 93, after the last layer, and moves the model to the device in line
  94: a call that returns has set the flag; after any call the flag is True exactly when
  it was True before or the call got through line 93; and the call returns exactly when
  it got through line 93 and the move raised nothing.  A call that got through line 93
  had a batch of four dimensions \<open>[N0, in_channels, H, W]\<close> and has sized every layer from
  it: with \<open>L\<close> hidden dimensions, \<open>h\<close> and \<open>w\<close> the height \<open>H\<close> and the width \<open>W\<close> halved
  (rounding up) \<open>L\<close> times and \<open>c\<close> the last hidden dimension, the encoder result shape is
  \<open>[c, h, w]\<close>, \<open>fc_mu\<close> and \<open>fc_var\<close> are linear maps from \<open>c * h * w\<close> to \<open>latent_dim\<close>,
  \<open>decoder_input\<close> is a linear map back, and the output convolution has the kernel size
  \<open>2\<^sup>L * w + 3 - W\<close>; the convolutions are those of the hidden dimensions.  Along any
  sequence of calls a True flag stays True, and a flag that has become True was set by a
  call of \<open>build\<close> in the sequence that got through line 93.
\<close>

theorem built_life_cycle:
  "\<not> built (init c l h)
   \<and> encoder (init c l h) = None \<and> encoder_result_shape (init c l h) = None
   \<and> fc_mu (init c l h) = None \<and> fc_var (init c l h) = None
   \<and> decoder_input (init c l h) = None \<and> decoder (init c l h) = None
   \<and> final_layer (init c l h) = None \<and> output_layer (init c l h) = None
   \<and> hidden_dims (init c l None) = [32, 64, 128, 256, 512]
   \<and> hidden_dims (init c l (Some hs)) = hs
   \<and> (snd (build nv mc self d dev) = Inr () \<longrightarrow> built (fst (build nv mc self d dev)))
   \<and> (built (fst (build nv mc self d dev)) \<longleftrightarrow>
        built self \<or> snd (build_layers nv self d) = Inr ())
   \<and> (snd (build nv mc self d dev) = Inr () \<longleftrightarrow>
        snd (build_layers nv self d) = Inr () \<and> mc dev = None)
   \<and> (snd (build_layers nv self d) = Inr () \<longrightarrow>
        (\<exists>N0 H W modules dms fl.
           shape d = [N0, nat (in_channels self), H, W]
         \<and> encoder_modules (in_channels self) (hidden_dims self) = Inr modules
         \<and> decoder_modules (rev (hidden_dims self)) = Inr dms
         \<and> final_modules (hd (hidden_dims self)) = Inr fl
         \<and> fst (build nv mc self d dev) =
             self\<lparr>encoder := Some modules,
               encoder_result_shape := Some [nat (last (hidden_dims self)),
                 (halve ^^ length (hidden_dims self)) H, (halve ^^ length (hidden_dims self)) W],
               fc_mu := Some (Linear (prod_list [nat (last (hidden_dims self)),
                 (halve ^^ length (hidden_dims self)) H, (halve ^^ length (hidden_dims self)) W])
                 (nat (latent_dim self))),
               fc_var := Some (Linear (prod_list [nat (last (hidden_dims self)),
                 (halve ^^ length (hidden_dims self)) H, (halve ^^ length (hidden_dims self)) W])
                 (nat (latent_dim self))),
               decoder_input := Some (Linear (nat (latent_dim self))
                 (prod_list [nat (last (hidden_dims self)),
                 (halve ^^ length (hidden_dims self)) H,
                 (halve ^^ length (hidden_dims self)) W])),
               decoder := Some dms, final_layer := Some fl,
               output_layer := Some (Conv2d (nat (hd (hidden_dims self)))
                 (nat (in_channels self))
                 (2 ^ length (hidden_dims self) * (halve ^^ length (hidden_dims self)) W + 3 - W)
                 1 1),
               built := True\<rparr>))
   \<and> (built self \<longrightarrow> built (run nv mc cs self))
   \<and> (built (run nv mc cs self) \<and> \<not> built self \<longrightarrow>
        (\<exists>pre d' dev' post. cs = pre @ Call_build d' dev' # post
           \<and> \<not> built (run nv mc pre self)
           \<and> snd (build_layers nv (run nv mc pre self) d') = Inr ()))"
proof -
  let ?R = "\<lambda>H W modules dms fl.
             self\<lparr>encoder := Some modules,
               encoder_result_shape := Some [nat (last (hidden_dims self)),
                 (halve ^^ length (hidden_dims self)) H, (halve ^^ length (hidden_dims self)) W],
               fc_mu := Some (Linear (prod_list [nat (last (hidden_dims self)),
                 (halve ^^ length (hidden_dims self)) H, (halve ^^ length (hidden_dims self)) W])
                 (nat (latent_dim self))),
               fc_var := Some (Linear (prod_list [nat (last (hidden_dims self)),
                 (halve ^^ length (hidden_dims self)) H, (halve ^^ length (hidden_dims self)) W])
                 (nat (latent_dim self))),
               decoder_input := Some (Linear (nat (latent_dim self))
                 (prod_list [nat (last (hidden_dims self)),
                 (halve ^^ length (hidden_dims self)) H,
                 (halve ^^ length (hidden_dims self)) W])),
               decoder := Some dms, final_layer := Some fl,
               output_layer := Some (Conv2d (nat (hd (hidden_dims self)))
                 (nat (in_channels self))
                 (2 ^ length (hidden_dims self) * (halve ^^ length (hidden_dims self)) W + 3 - W)
                 1 1),
               built := True\<rparr>"
  let ?P = "\<lambda>N0 H W modules dms fl.
           shape d = [N0, nat (in_channels self), H, W]
         \<and> encoder_modules (in_channels self) (hidden_dims self) = Inr modules
         \<and> decoder_modules (rev (hidden_dims self)) = Inr dms
         \<and> final_modules (hd (hidden_dims self)) = Inr fl
         \<and> fst (build nv mc self d dev) = ?R H W modules dms fl"
  have i: "\<not> built (init c l h)
     \<and> encoder (init c l h) = None \<and> encoder_result_shape (init c l h) = None
     \<and> fc_mu (init c l h) = None \<and> fc_var (init c l h) = None
     \<and> decoder_input (init c l h) = None \<and> decoder (init c l h) = None
     \<and> final_layer (init c l h) = None \<and> output_layer (init c l h) = None
     \<and> hidden_dims (init c l None) = [32, 64, 128, 256, 512]
     \<and> hidden_dims (init c l (Some hs)) = hs"
    by (simp add: init_def)
  have s: "\<exists>N0 H W modules dms fl. ?P N0 H W modules dms fl"
    if ok: "snd (build_layers nv self d) = Inr ()"
  proof -
    from ok have b: "build_layers nv self d = (fst (build nv mc self d dev), Inr ())"
      by (simp add: prod_eq_iff build_fst)
    from b obtain N0 H W where d: "shape d = [N0, nat (in_channels self), H, W]"
      by (rule build_layers_4d)
    from b d obtain modules dms fl
      where "encoder_modules (in_channels self) (hidden_dims self) = Inr modules"
        and "decoder_modules (rev (hidden_dims self)) = Inr dms"
        and "final_modules (hd (hidden_dims self)) = Inr fl"
        and "fst (build nv mc self d dev) = ?R H W modules dms fl"
      by (rule build_shapeE)
    with d show ?thesis by blast
  qed
  have r: "snd (build nv mc self d dev) = Inr () \<longrightarrow> built (fst (build nv mc self d dev))"
    by (simp add: built_build build_snd_Inr)
  from i r s show ?thesis
    using built_build [of nv mc self d dev] build_snd_Inr [of nv mc self d dev]
      run_built_mono [of self nv mc cs] run_built_origin [of nv mc cs self]
    by blast
qed

theorem built_life_cycle_witness:
  "snd (build zero_numerics cpu_only (init 1 2 (Some [8])) (zeros [2, 1, 2, 2]) cpu) = Inr ()
   \<and> built (fst (build zero_numerics cpu_only (init 1 2 (Some [8])) (zeros [2, 1, 2, 2]) cpu))
   \<and> snd (build zero_numerics cpu_only (init 1 2 (Some [8])) (zeros [2, 1, 2, 2])
        (Device_index 0)) \<noteq> Inr ()
   \<and> built (fst (build zero_numerics cpu_only (init 1 2 (Some [8])) (zeros [2, 1, 2, 2])
        (Device_index 0)))
   \<and> (\<exists>N0 H W. shape (zeros [2, 1, 2, 2]) = [N0, 1, H, W]
        \<and> encoder_result_shape
            (fst (build zero_numerics cpu_only (init 1 2 (Some [8])) (zeros [2, 1, 2, 2]) cpu))
          = Some [8, halve H, halve W])
   \<and> built (run zero_numerics cpu_only [Call_train False, Call_sample 3 cpu] square_model)"
proof -
  have s: "snd (build zero_numerics cpu_only (init 1 2 (Some [8])) (zeros [2, 1, 2, 2]) cpu)
      = Inr ()"
    unfolding build_square by simp
  have c: "cpu_only cpu = None" "cpu_only (Device_index 0) \<noteq> None"
    by (simp_all add: cpu_only_def cpu_def)
  have f: "in_channels (init 1 2 (Some [8])) = 1" "hidden_dims (init 1 2 (Some [8])) = [8]"
    by (simp_all add: init_def)
  show ?thesis
    using s c square_model_built
      built_life_cycle [of 1 2 "Some [8]" "[8]" zero_numerics cpu_only "init 1 2 (Some [8])"
        "zeros [2, 1, 2, 2]" cpu "[]"]
      built_life_cycle [of 1 2 "Some [8]" "[8]" zero_numerics cpu_only "init 1 2 (Some [8])"
        "zeros [2, 1, 2, 2]" "Device_index 0" "[]"]
      built_life_cycle [of 1 2 "Some [8]" "[8]" zero_numerics cpu_only square_model
        "zeros [2, 1, 2, 2]" cpu "[Call_train False, Call_sample 3 cpu]"]
    unfolding f by (auto simp: numeral_eq_Suc)
qed

section \<open>Encoding\<close>

text \<open>
  The model of the same configuration put in evaluation mode before it is built: the
  flag of the object stays False, the layers \<open>build\<close> constructs are in training mode.
\<close>

lemma build_eval_first:
  "build zero_numerics cpu_only (train False (init 1 2 (Some [8]))) (zeros [2, 1, 2, 2]) cpu =
     (\<lparr>latent_dim = 2, hidden_dims = [8], in_channels = 1, built = True, training = False,
       encoder = Some [[Conv2d 1 8 3 2 1, BatchNorm2d 8 True, LeakyReLU]],
       encoder_result_shape = Some [8, 1, 1], fc_mu = Some (Linear 8 2),
       fc_var = Some (Linear 8 2), decoder_input = Some (Linear 2 8), decoder = Some [],
       final_layer = Some [ConvTranspose2d 8 8 3 2 1 1, BatchNorm2d 8 True, LeakyReLU],
       output_layer = Some (Conv2d 8 1 3 1 1)\<rparr>, Inr ())"
  by code_simp

text \<open>
  Claim C5.  As stated the claim fails: batch normalisation in training mode refuses a
  batch with one value per channel, and the layers of a model are in training mode from
  \<open>build\<close> on.  The model built on a batch of two 2 by 2 images has a 1 by 1 encoder
  output, and \<open>encode\<close> of a batch of one such image, with the right channels and spatial
  size, raises ValueError.
\<close>

theorem encode_single_image_counterexample:
  "build zero_numerics cpu_only (init 1 2 (Some [8])) (zeros [2, 1, 2, 2]) cpu =
     (square_model, Inr ())
   \<and> built square_model \<and> in_channels square_model = 1
   \<and> shape (zeros [1, 1, 2, 2]) = [1, 1, 2, 2]
   \<and> encode zero_numerics square_model (zeros [1, 1, 2, 2]) = Inl ValueError"
proof -
  have "encode zero_numerics square_model (zeros [1, 1, 2, 2]) = Inl ValueError"
    unfolding square_model_eq by code_simp
  then show ?thesis
    using build_square_model by (simp add: square_model_eq zeros_def)
qed

text \<open>
  Claim C5, amended.  Take a model \<open>self\<close> that \<open>build\<close> returned for a batch of shape
  \<open>[N0, C0, H, W]\<close>, and let \<open>m\<close> be this model as \<open>build\<close> left it, its layers in training
  mode (\<open>t\<close> is True) whatever the flag of the object was, or after \<^verbatim>\<open>train(t)\<close>, its
  layers in mode \<open>t\<close>.  Let the encoder output have shape \<open>[c, h, w]\<close> and the input the
  shape \<open>[N, in_channels, H, W]\<close>.  Unless the layers are in training mode and
  \<open>N * h * w = 1\<close>, \<open>encode\<close> returns the list \<open>[mu, log_var]\<close> of two tensors of shape
  \<open>[N, latent_dim]\<close>, which are \<open>fc_mu\<close> and \<open>fc_var\<close> applied to the flattened output of
  the encoder; in that one case it raises ValueError.
\<close>

theorem encode_after_build:
  assumes b: "build nv mc self0 d dev = (self, Inr ())" and d: "shape d = [N0, C0, H, W]"
    and m: "m = self \<and> t \<or> m = train t self"
    and x: "shape x = [N, nat (in_channels m), H, W]"
    and ers: "encoder_result_shape m = Some [c, h, w]"
  shows "(t \<and> N * h * w = 1 \<longrightarrow> encode nv m x = Inl ValueError)
     \<and> (\<not> (t \<and> N * h * w = 1) \<longrightarrow>
          (\<exists>enc fm fv enc_out flat mu log_var.
             encoder m = Some enc \<and> fc_mu m = Some fm \<and> fc_var m = Some fv
             \<and> blocks_forward nv Encoder enc x = Inr enc_out
             \<and> torch_flatten enc_out = Inr flat
             \<and> layer_forward nv Fc_mu fm flat = Inr mu
             \<and> layer_forward nv Fc_var fv flat = Inr log_var
             \<and> encode nv m x = Inr [mu, log_var]
             \<and> shape mu = [N, nat (latent_dim m)]
             \<and> shape log_var = [N, nat (latent_dim m)]
             \<and> length (vals mu) = numel (shape mu)
             \<and> length (vals log_var) = numel (shape log_var)))"
  using build_Inr_layers [OF b] d m x ers by (rule encode_shape_after_build)

theorem encode_after_build_witness:
  "(\<exists>mu log_var. encode zero_numerics square_model (zeros [3, 1, 2, 2]) = Inr [mu, log_var]
      \<and> shape mu = [3, 2] \<and> shape log_var = [3, 2])
   \<and> (\<exists>mu log_var.
        encode zero_numerics (train False square_model) (zeros [1, 1, 2, 2]) = Inr [mu, log_var]
      \<and> shape mu = [1, 2] \<and> shape log_var = [1, 2])
   \<and> encode zero_numerics
        (fst (build zero_numerics cpu_only (train False (init 1 2 (Some [8])))
           (zeros [2, 1, 2, 2]) cpu))
        (zeros [1, 1, 2, 2]) = Inl ValueError"
proof -
  let ?e = "fst (build zero_numerics cpu_only (train False (init 1 2 (Some [8])))
    (zeros [2, 1, 2, 2]) cpu)"
  have d: "shape (zeros [2, 1, 2, 2]) = [2, 1, 2, 2]"
    by (simp add: zeros_def)
  have m1: "square_model = square_model \<and> True \<or> square_model = train True square_model"
    by simp
  have x1: "shape (zeros [3, 1, 2, 2]) = [3, nat (in_channels square_model), 2, 2]"
    by (simp add: zeros_def square_model_eq)
  have ers1: "encoder_result_shape square_model = Some [8, 1, 1]"
    by (simp add: square_model_eq)
  have l1: "nat (latent_dim square_model) = 2"
    by (simp add: square_model_eq)
  have m2: "train False square_model = square_model \<and> False
      \<or> train False square_model = train False square_model"
    by simp
  have x2: "shape (zeros [1, 1, 2, 2]) = [1, nat (in_channels (train False square_model)), 2, 2]"
    by (simp add: zeros_def square_model_eq train_def)
  have ers2: "encoder_result_shape (train False square_model) = Some [8, 1, 1]"
    by (simp add: square_model_eq train_def)
  have l2: "nat (latent_dim (train False square_model)) = 2"
    by (simp add: square_model_eq train_def)
  have b3: "build zero_numerics cpu_only (train False (init 1 2 (Some [8])))
      (zeros [2, 1, 2, 2]) cpu = (?e, Inr ())"
    unfolding build_eval_first by simp
  have m3: "?e = ?e \<and> True \<or> ?e = train True ?e"
    by simp
  have x3: "shape (zeros [1, 1, 2, 2]) = [1, nat (in_channels ?e), 2, 2]"
    unfolding build_eval_first by (simp add: zeros_def)
  have ers3: "encoder_result_shape ?e = Some [8, 1, 1]"
    unfolding build_eval_first by simp
  from encode_after_build [OF build_square_model d m1 x1 ers1]
  have "\<exists>mu log_var. encode zero_numerics square_model (zeros [3, 1, 2, 2]) = Inr [mu, log_var]
      \<and> shape mu = [3, 2] \<and> shape log_var = [3, 2]"
    unfolding l1 by auto
  moreover from encode_after_build [OF build_square_model d m2 x2 ers2]
  have "\<exists>mu log_var.
        encode zero_numerics (train False square_model) (zeros [1, 1, 2, 2]) = Inr [mu, log_var]
      \<and> shape mu = [1, 2] \<and> shape log_var = [1, 2]"
    unfolding l2 by auto
  moreover from encode_after_build [OF b3 d m3 x3 ers3]
  have "encode zero_numerics ?e (zeros [1, 1, 2, 2]) = Inl ValueError"
    by simp
  ultimately show ?thesis
    by blast
qed

section \<open>Decoding and sampling\<close>

text \<open>
  Claim C1.  The kernel of the output convolution is computed from the widths alone and
  is square, so the height of a decoded image is the build batch's only when height and
  width are padded alike by the encoder (lemma \<open>decode_after_build\<close>; square batches in
  \<open>decode_square_build\<close>).  For the model built on a batch of shape \<open>[2, 1, 5, 4]\<close> the
  decoded images are 6 high, not 5, and \<^verbatim>\<open>mse_loss\<close>, with which \<open>loss_function\<close> compares
  a reconstruction with its input, raises RuntimeError for these two shapes.
\<close>

theorem decode_oblong_shape:
  "build zero_numerics cpu_only (init 1 2 (Some [8])) (zeros [2, 1, 5, 4]) cpu =
     (oblong_model, Inr ())
   \<and> map_sum id shape (decode zero_numerics oblong_model (zeros [3, 2])) = Inr [3, 1, 6, 4]
   \<and> mse_loss (zeros [2, 1, 6, 4]) (zeros [2, 1, 5, 4]) = Inl RuntimeError"
proof -
  have "map_sum id shape (decode zero_numerics oblong_model (zeros [3, 2])) = Inr [3, 1, 6, 4]"
    unfolding oblong_model_def build_oblong by code_simp
  moreover have "mse_loss (zeros [2, 1, 6, 4]) (zeros [2, 1, 5, 4]) = Inl RuntimeError"
    by (simp add: mse_loss_def tensor_sub_def tensor_binop_def broadcast_shapes_def zeros_def)
  ultimately show ?thesis
    using build_oblong_model by simp
qed

text \<open>
  Claim C7.  \<open>sample\<close> decodes a draw of shape \<open>[num_samples, latent_dim]\<close>, moved to the
  device, so it returns num_samples images (lemma \<open>sample_after_build\<close>), of the height
  \<open>decode\<close> gives them: for the model built on a batch of shape \<open>[2, 1, 5, 4]\<close>, three
  samples have shape \<open>[3, 1, 6, 4]\<close>.
\<close>

theorem sample_oblong_shape:
  "build zero_numerics cpu_only (init 1 2 (Some [8])) (zeros [2, 1, 5, 4]) cpu =
     (oblong_model, Inr ())
   \<and> map_sum id shape (sample zero_numerics zero_noise cpu_only oblong_model 3 cpu)
       = Inr [3, 1, 6, 4]"
proof -
  have "map_sum id shape (sample zero_numerics zero_noise cpu_only oblong_model 3 cpu)
      = Inr [3, 1, 6, 4]"
    unfolding oblong_model_def build_oblong by code_simp
  with build_oblong_model show ?thesis by simp
qed

section \<open>The forward pass\<close>

lemma forward_Inr_iff:
  "forward nv noise self x = Inr out \<longleftrightarrow>
     (\<exists>mu log_var z r. encode nv self x = Inr [mu, log_var]
        \<and> reparameterize noise mu log_var = Inr z \<and> decode nv self z = Inr r
        \<and> out = [r, x, mu, log_var])"
proof (cases "built self")
  case False
  then show ?thesis by (simp add: forward_def encode_def)
next
  case True
  have u: "unpack2 ml = Inr (mu, lv) \<longleftrightarrow> ml = [mu, lv]" for ml :: "tensor list" and mu lv
    by (auto simp: unpack2_def split: list.splits)
  show ?thesis
    using True by (auto simp: forward_def bind_err_eq_Inr u)
qed

text \<open>
  Claim C6.  Take a model \<open>self\<close> that \<open>build\<close> returned for a batch of shape
  \<open>[N0, C0, H, W]\<close>, and let \<open>m\<close> be this model as \<open>build\<close> left it, its layers in training
  mode (\<open>t\<close> is True), or after \<^verbatim>\<open>train(t)\<close>, its layers in mode \<open>t\<close>.  Take an input of
  shape \<open>[N, in_channels, H, W]\<close> that batch normalisation accepts in this mode: the layers
  are not in training mode, or \<open>N * h * w\<close> is not 1 for the encoder result shape
  \<open>[c, h, w]\<close>.  Then \<open>encode\<close> returns \<open>[mu, log_var]\<close>, \<open>reparameterize\<close> returns a latent
  tensor \<open>z\<close> for them, \<open>decode\<close> returns \<open>r\<close> for \<open>z\<close>, and \<open>forward\<close> returns the list
  \<open>[r, input, mu, log_var]\<close>, whose second element is the input itself.
\<close>

theorem forward_after_build:
  assumes b: "build nv mc self0 d dev = (self, Inr ())" and d: "shape d = [N0, C0, H, W]"
    and m: "m = self \<and> t \<or> m = train t self"
    and x: "shape x = [N, nat (in_channels m), H, W]"
    and ers: "encoder_result_shape m = Some [c, h, w]"
    and ok: "\<not> (t \<and> N * h * w = 1)"
  shows "\<exists>mu log_var z r.
     encode nv m x = Inr [mu, log_var]
     \<and> reparameterize noise mu log_var = Inr z
     \<and> decode nv m z = Inr r
     \<and> forward nv noise m x = Inr [r, x, mu, log_var]"
proof -
  note bl = build_Inr_layers [OF b]
  from encode_shape_after_build [OF bl d m x ers] ok obtain mu lv where
    e: "encode nv m x = Inr [mu, lv]"
    and sh: "shape mu = [N, nat (latent_dim m)]" "shape lv = [N, nat (latent_dim m)]"
    and wf: "length (vals mu) = numel (shape mu)" "length (vals lv) = numel (shape lv)"
    by blast
  from sh have same: "shape mu = shape lv" by simp
  define z where "z = \<lparr>shape = shape mu,
      vals = map (\<lambda>i. noise i * exp (0.5 * vals lv ! i) + vals mu ! i) [0..<numel (shape mu)],
      requires_grad = (requires_grad lv \<or> requires_grad mu)\<rparr>"
  have rp: "reparameterize noise mu lv = Inr z"
    unfolding z_def by (rule reparameterize_same_shape [OF same wf])
  have "shape z = [N, nat (latent_dim m)]"
    by (simp add: z_def sh)
  from decode_after_build [OF bl d m this] obtain r where
    r: "decode nv m z = Inr r" by blast
  have "forward nv noise m x = Inr [r, x, mu, lv]"
    unfolding forward_Inr_iff using e rp r by blast
  with e rp r show ?thesis by blast
qed

theorem forward_after_build_witness:
  "(\<exists>mu log_var r.
     forward zero_numerics zero_noise square_model (zeros [3, 1, 2, 2]) =
       Inr [r, zeros [3, 1, 2, 2], mu, log_var])
   \<and> (\<exists>mu log_var r.
     forward zero_numerics zero_noise (train False square_model) (zeros [1, 1, 2, 2]) =
       Inr [r, zeros [1, 1, 2, 2], mu, log_var])"
proof -
  have d: "shape (zeros [2, 1, 2, 2]) = [2, 1, 2, 2]"
    by (simp add: zeros_def)
  have m1: "square_model = square_model \<and> True \<or> square_model = train True square_model"
    by simp
  have x1: "shape (zeros [3, 1, 2, 2]) = [3, nat (in_channels square_model), 2, 2]"
    by (simp add: zeros_def square_model_eq)
  have ers1: "encoder_result_shape square_model = Some [8, 1, 1]"
    by (simp add: square_model_eq)
  have ok1: "\<not> (True \<and> 3 * 1 * 1 = (1::nat))"
    by simp
  have m2: "train False square_model = square_model \<and> False
      \<or> train False square_model = train False square_model"
    by simp
  have x2: "shape (zeros [1, 1, 2, 2]) = [1, nat (in_channels (train False square_model)), 2, 2]"
    by (simp add: zeros_def square_model_eq train_def)
  have ers2: "encoder_result_shape (train False square_model) = Some [8, 1, 1]"
    by (simp add: square_model_eq train_def)
  have ok2: "\<not> (False \<and> 1 * 1 * 1 = (1::nat))"
    by simp
  from forward_after_build [OF build_square_model d m1 x1 ers1 ok1, of zero_noise]
    forward_after_build [OF build_square_model d m2 x2 ers2 ok2, of zero_noise]
  show ?thesis by blast
qed

end
